theory Spec2Isabelle
  imports Complex_Main
begin

section \<open>Instrument correction and simulation (obspy.signal.invsim)\<close>

text \<open>
  A shallow embedding of \<^verbatim>\<open>invsim.py\<close>. Python floats are modelled as HOL reals
  and Python/NumPy complex numbers as HOL complex numbers, so the arithmetic is exact:
  rounding, overflow and the IEEE values inf/nan of a division are outside the model,
  except where a function of the source can only produce them from real arguments
  (the logarithm of a non-positive number), where they are values of their own.
  Every exception of the source is a value \<open>Inl e\<close> of the result.
\<close>

subsection \<open>Exceptions and results\<close>

datatype error =
    TypeError string
  | KeyError string
  | ValueError
  | ZeroDivisionError
  | IndexError
  | IOError

text \<open>Sequencing: the first exception ends the computation.\<close>

definition and_then :: "error + 'a \<Rightarrow> ('a \<Rightarrow> error + 'b) \<Rightarrow> error + 'b" where
  "and_then r f = (case r of Inl e \<Rightarrow> Inl e | Inr x \<Rightarrow> f x)"

subsection \<open>Response dictionaries\<close>

text \<open>
  A poles-and-zeros description is a Python dict from key strings to values, written
  here as the list of its items (looked up with \<open>map_of\<close>; the empty list is the
  empty dict). The values the module reads are floats, lists of complex numbers and,
  in a RESP descriptor, strings and a date (year and day of the year).
\<close>

datatype pyval = PyFloat real | PyCList "complex list" | PyStr string | PyDate nat nat

type_synonym pydict = "(string \<times> pyval) list"

text \<open>\<^verbatim>\<open>d[key]\<close> used as a list of complex numbers.\<close>

definition getitem_clist :: "pydict \<Rightarrow> string \<Rightarrow> error + complex list" where
  "getitem_clist d k =
     (case map_of d k of
        None \<Rightarrow> Inl (KeyError k)
      | Some (PyCList xs) \<Rightarrow> Inr xs
      | Some _ \<Rightarrow> Inl (TypeError ''a list of complex numbers is expected''))"

text \<open>\<^verbatim>\<open>d[key]\<close> used as a number.\<close>

definition getitem_float :: "pydict \<Rightarrow> string \<Rightarrow> error + real" where
  "getitem_float d k =
     (case map_of d k of
        None \<Rightarrow> Inl (KeyError k)
      | Some (PyFloat x) \<Rightarrow> Inr x
      | Some _ \<Rightarrow> Inl (TypeError ''a number is expected''))"

text \<open>
  The module constant, as it is written in the source:
  \<^verbatim>\<open>
  WOODANDERSON = {'poles': [-6.283 + 4.7124j, -6.283 - 4.7124],
                  'zeros': [0 + 0j], 'gain': 1.0, 'sensitivity': 2080}
  \<close>
  The second entry of the pole list has no imaginary unit: it is the real number
  \<open>-6.283 - 4.7124\<close>.
\<close>

definition WOODANDERSON :: pydict where
  "WOODANDERSON =
     [(''poles'', PyCList [Complex (-6.283) 0 + Complex 0 4.7124,
                          Complex (-6.283) 0 - Complex 4.7124 0]),
      (''zeros'', PyCList [Complex 0 0 + Complex 0 0]),
      (''gain'', PyFloat 1.0),
      (''sensitivity'', PyFloat 2080)]"

subsection \<open>Amplitude of a response at one frequency\<close>

text \<open>\<^verbatim>\<open>for zero in paz['zeros']: fac *= jw - zero\<close>\<close>

fun numerator_loop :: "complex \<Rightarrow> complex list \<Rightarrow> complex \<Rightarrow> complex" where
  "numerator_loop jw [] fac = fac"
| "numerator_loop jw (zero # rest) fac = numerator_loop jw rest (fac * (jw - zero))"

text \<open>
  \<^verbatim>\<open>for pole in paz['poles']: fac /= jw - pole\<close>; Python's complex division raises
  ZeroDivisionError on a zero divisor.
\<close>

fun denominator_loop :: "complex \<Rightarrow> complex list \<Rightarrow> complex \<Rightarrow> error + complex" where
  "denominator_loop jw [] fac = Inr fac"
| "denominator_loop jw (pole # rest) fac =
     (if jw - pole = 0 then Inl ZeroDivisionError
      else denominator_loop jw rest (fac / (jw - pole)))"

definition paz2AmpValueOfFreqResp :: "pydict \<Rightarrow> real \<Rightarrow> error + real" where
  "paz2AmpValueOfFreqResp paz freq =
     (let jw = Complex 0 (2 * pi * freq);
          fac = Complex 1 0
      in and_then (getitem_clist paz ''zeros'') (\<lambda>zs.
         let fac = numerator_loop jw zs fac
         in and_then (getitem_clist paz ''poles'') (\<lambda>ps.
            and_then (denominator_loop jw ps fac) (\<lambda>fac.
            and_then (getitem_float paz ''gain'') (\<lambda>g.
            Inr (cmod fac * g))))))"

subsection \<open>Wood-Anderson amplitude and local magnitude\<close>

text \<open>Python's float division raises ZeroDivisionError on a zero divisor.\<close>

definition py_div :: "real \<Rightarrow> real \<Rightarrow> error + real" where
  "py_div a b = (if b = 0 then Inl ZeroDivisionError else Inr (a / b))"

definition estimateWoodAndersonAmplitude :: "pydict \<Rightarrow> real \<Rightarrow> real \<Rightarrow> error + real" where
  "estimateWoodAndersonAmplitude paz amplitude timespan =
     and_then (py_div 1.0 (2 * timespan)) (\<lambda>freq.
     let wa_ampl = amplitude / 2.0 in
     and_then (paz2AmpValueOfFreqResp paz freq) (\<lambda>amp.
     and_then (getitem_float paz ''sensitivity'') (\<lambda>sens.
     and_then (py_div wa_ampl (amp * sens)) (\<lambda>wa_ampl.
     and_then (paz2AmpValueOfFreqResp WOODANDERSON freq) (\<lambda>wa_amp.
     and_then (getitem_float WOODANDERSON ''sensitivity'') (\<lambda>wa_sens.
     let wa_ampl = wa_ampl * (wa_amp * wa_sens);
         wa_ampl = wa_ampl * 1000
     in Inr wa_ampl))))))"

text \<open>
  An argument of \<^verbatim>\<open>estimateMagnitude\<close> is one reading or a list (or tuple) of
  readings; one reading is wrapped into a list of length one.
\<close>

datatype 'a reading = Single 'a | Several "'a list"

fun as_list :: "'a reading \<Rightarrow> 'a list" where
  "as_list (Single x) = [x]"
| "as_list (Several xs) = xs"

text \<open>
  The loop over \<^verbatim>\<open>zip(paz, amplitude, timespan)\<close>: \<^verbatim>\<open>zip\<close> stops at the end of
  the shortest list. The state is the running sum and the count.
\<close>

fun wa_loop :: "(pydict \<times> real \<times> real) list \<Rightarrow> real \<Rightarrow> nat \<Rightarrow> error + (real \<times> nat)" where
  "wa_loop [] wa_ampl_mean count = Inr (wa_ampl_mean, count)"
| "wa_loop ((paz, amplitude, timespan) # rest) wa_ampl_mean count =
     and_then (estimateWoodAndersonAmplitude paz amplitude timespan) (\<lambda>w.
       wa_loop rest (wa_ampl_mean + w) (count + 1))"

text \<open>
  \<^verbatim>\<open>np.log10\<close> raises nothing: it returns \<open>-inf\<close> at zero and \<open>nan\<close> below zero.
  The magnitude is therefore a float that may be one of these two values.
\<close>

datatype npfloat = Finite real | NegInf | NaN

definition np_log10 :: "real \<Rightarrow> npfloat" where
  "np_log10 x = (if x < 0 then NaN else if x = 0 then NegInf else Finite (log 10 x))"

fun np_add :: "npfloat \<Rightarrow> npfloat \<Rightarrow> npfloat" where
  "np_add (Finite a) (Finite b) = Finite (a + b)"
| "np_add NaN _ = NaN"
| "np_add _ NaN = NaN"
| "np_add NegInf _ = NegInf"
| "np_add _ NegInf = NegInf"

definition estimateMagnitude ::
  "pydict reading \<Rightarrow> real reading \<Rightarrow> real reading \<Rightarrow> real \<Rightarrow> error + npfloat" where
  "estimateMagnitude paz amplitude timespan h_dist =
     (let paz = as_list paz;
          amplitude = as_list amplitude;
          timespan = as_list timespan
      in and_then (wa_loop (zip paz (zip amplitude timespan)) 0.0 0) (\<lambda>(wa_ampl_mean, count).
         and_then (py_div wa_ampl_mean (real count)) (\<lambda>wa_ampl_mean.
         Inr (np_add (np_add (np_add (np_log10 wa_ampl_mean) (np_log10 (h_dist / 100.0)))
                (Finite (0.00301 * (h_dist - 100.0)))) (Finite 3.0)))))"

text \<open>
  The instrument of the docstring example of \<^verbatim>\<open>estimateMagnitude\<close>:
  \<^verbatim>\<open>
  paz = {'poles': [-4.444+4.444j, -4.444-4.444j, -1.083+0j],
         'zeros': [0+0j, 0+0j, 0+0j],
         'gain': 1.0, 'sensitivity': 671140000.0}
  \<close>
\<close>

definition paz_example :: pydict where
  "paz_example =
     [(''poles'', PyCList [Complex (-4.444) 4.444, Complex (-4.444) (-4.444),
                          Complex (-1.083) 0]),
      (''zeros'', PyCList [Complex 0 0, Complex 0 0, Complex 0 0]),
      (''gain'', PyFloat 1.0),
      (''sensitivity'', PyFloat 671140000.0)]"

subsection \<open>Cosine taper\<close>

text \<open>Python's \<^verbatim>\<open>int(x)\<close> on a float: truncation towards zero.\<close>

definition py_int :: "real \<Rightarrow> int" where
  "py_int x = (if 0 \<le> x then \<lfloor>x\<rfloor> else \<lceil>x\<rceil>)"

text \<open>
  \<^verbatim>\<open>numpy.linspace(start, stop, num)\<close> (library function, with the end point):
  no sample for \<open>num \<le> 0\<close>, the single sample \<open>start\<close> for \<open>num = 1\<close>, and
  otherwise \<open>arange(0, num) * step + start\<close> with \<open>step = (stop - start) / (num - 1)\<close>.
\<close>

definition np_linspace :: "real \<Rightarrow> real \<Rightarrow> int \<Rightarrow> real list" where
  "np_linspace start stop num =
     (if num \<le> 0 then []
      else if num = 1 then [start]
      else let step = (stop - start) / real_of_int (num - 1)
           in map (\<lambda>i. real i * step + start) [0..<nat num])"

text \<open>
  \<^verbatim>\<open>numpy.ones(n)\<close> (library function): \<open>n\<close> ones; a negative dimension is
  a ValueError.
\<close>

definition np_ones :: "int \<Rightarrow> error + real list" where
  "np_ones n = (if n < 0 then Inl ValueError else Inr (replicate (nat n) 1.0))"

text \<open>
  \<^verbatim>\<open>
  def cosTaper(npts, p=0.1):
      if p == 0.0 or p == 1.0:
          frac = int(npts * p / 2.0)
      else:
          frac = int(npts * p / 2.0) + 1
      return np.concatenate((
          0.5 * (1 + np.cos(np.linspace(np.pi, 2 * np.pi, frac))),
          np.ones(npts - 2 * frac),
          0.5 * (1 + np.cos(np.linspace(0, np.pi, frac)))), axis=0)
  \<close>
  The number of points is a count, hence a natural number.
\<close>

definition cosTaper :: "nat \<Rightarrow> real \<Rightarrow> error + real list" where
  "cosTaper npts p =
     (let frac = (if p = 0.0 \<or> p = 1.0 then py_int (real npts * p / 2.0)
                  else py_int (real npts * p / 2.0) + 1)
      in and_then (np_ones (int npts - 2 * frac)) (\<lambda>middle.
           Inr (map (\<lambda>t. 0.5 * (1 + cos t)) (np_linspace pi (2 * pi) frac)
                @ middle
                @ map (\<lambda>t. 0.5 * (1 + cos t)) (np_linspace 0 pi frac))))"

subsection \<open>Water-level inversion of a spectrum\<close>

text \<open>\<^verbatim>\<open>a.max()\<close> of a NumPy array: a ValueError on an empty array.\<close>

fun np_max :: "real list \<Rightarrow> error + real" where
  "np_max [] = Inl ValueError"
| "np_max (x # xs) = Inr (fold max xs x)"

text \<open>\<^verbatim>\<open>return np.abs(spec).max() * 10.0 ** (-wlev / 20.0)\<close>\<close>

definition waterlevel :: "complex list \<Rightarrow> real \<Rightarrow> error + real" where
  "waterlevel spec wlev =
     and_then (np_max (map cmod spec)) (\<lambda>m. Inr (m * 10.0 powr (- wlev / 20.0)))"

text \<open>
  \<^verbatim>\<open>
  def specInv(spec, wlev):
      swamp = waterlevel(spec, wlev)
      sqrt_len = np.abs(spec)
      idx = np.where((sqrt_len < swamp) & (sqrt_len > 0.0))
      spec[idx] *= swamp / sqrt_len[idx]
      found = len(idx[0])
      sqrt_len = np.abs(spec)  # Find length of new scaled spec
      inn = np.where(sqrt_len > 0.0)
      spec[inn] = 1.0 / spec[inn]
      spec[sqrt_len == 0.0] = complex(0.0, 0.0)
      return found
  \<close>
  The function works in place on \<open>spec\<close>: the model takes the contents of the array
  and returns the new contents with the count. The only exception is raised by
  \<^verbatim>\<open>waterlevel\<close>, before the array is touched.
\<close>

definition below_swamp :: "real \<Rightarrow> complex \<Rightarrow> bool" where
  "below_swamp swamp z = (cmod z < swamp \<and> cmod z > 0.0)"

definition specInv :: "complex list \<Rightarrow> real \<Rightarrow> error + (complex list \<times> nat)" where
  "specInv spec wlev =
     and_then (waterlevel spec wlev) (\<lambda>swamp.
       let spec1 = map (\<lambda>z. if below_swamp swamp z
                                then z * complex_of_real (swamp / cmod z) else z) spec;
           found = length (filter (below_swamp swamp) spec);
           sqrt_len = map cmod spec1;
           spec2 = map (\<lambda>z. if cmod z > 0.0 then 1.0 / z else z) spec1;
           spec3 = map (\<lambda>(l, z). if l = 0.0 then Complex 0.0 0.0 else z) (zip sqrt_len spec2)
       in Inr (spec3, found))"

text \<open>
  What the three passes of \<^verbatim>\<open>specInv\<close> do to one bin \<open>z\<close>, given the water level
  \<open>swamp\<close>: clamp, then invert unless the clamped bin has magnitude zero.
\<close>

definition inverted_bin :: "real \<Rightarrow> complex \<Rightarrow> complex" where
  "inverted_bin swamp z =
     (let z1 = (if below_swamp swamp z then z * complex_of_real (swamp / cmod z) else z)
      in if cmod z1 = 0 then Complex 0 0 else if cmod z1 > 0 then 1 / z1 else z1)"

subsection \<open>Frequency response of poles and zeros\<close>

text \<open>
  \<^verbatim>\<open>numpy.poly(roots)\<close> (library function): the coefficients, highest power
  first, of the monic polynomial with the given roots, built by convolving \<open>[1]\<close>
  with \<open>[1, -r]\<close> for each root \<open>r\<close>. For no root NumPy returns the scalar \<open>1.0\<close>,
  which \<^verbatim>\<open>pazToFreqResp\<close> turns into the list \<open>[1.0]\<close>; the model has \<open>[1]\<close> at once.
  Where the complex roots come in conjugate pairs NumPy returns the real parts of the
  coefficients, whose imaginary parts are zero in exact arithmetic.
\<close>

definition convolve_root :: "complex list \<Rightarrow> complex \<Rightarrow> complex list" where
  "convolve_root a r = map (\<lambda>(x, y). x + y) (zip (a @ [0]) (0 # map (\<lambda>x. - r * x) a))"

definition np_poly :: "complex list \<Rightarrow> complex list" where
  "np_poly roots = fold (\<lambda>r a. convolve_root a r) roots [1]"

text \<open>\<^verbatim>\<open>numpy.polyval(p, x)\<close> (library function): Horner's scheme.\<close>

definition np_polyval :: "complex list \<Rightarrow> complex \<Rightarrow> complex" where
  "np_polyval p x = fold (\<lambda>c y. y * x + c) p 0"

text \<open>
  \<^verbatim>\<open>scipy.signal.zpk2tf(z, p, k)\<close> (library function): numerator \<open>k * poly(z)\<close> and
  denominator \<open>poly(p)\<close>.
\<close>

definition zpk2tf :: "complex list \<Rightarrow> complex list \<Rightarrow> real \<Rightarrow> complex list \<times> complex list" where
  "zpk2tf z p k = (map (\<lambda>c. complex_of_real k * c) (np_poly z), np_poly p)"

text \<open>
  \<^verbatim>\<open>scipy.signal.freqs(b, a, worN)\<close> (library function): the analog response
  \<open>polyval(b, jw) / polyval(a, jw)\<close> at each angular frequency \<open>w\<close>. Where the
  denominator vanishes NumPy yields inf or nan instead of raising; the model has the
  value of HOL's total division there.
\<close>

definition freqs :: "complex list \<Rightarrow> complex list \<Rightarrow> real list \<Rightarrow> real list \<times> complex list" where
  "freqs b a worN =
     (worN, map (\<lambda>w. np_polyval b (\<i> * complex_of_real w) / np_polyval a (\<i> * complex_of_real w)) worN)"

text \<open>
  \<^verbatim>\<open>
  def pazToFreqResp(poles, zeros, scale_fac, t_samp, nfft, freq=False, pitsa=True):
      n = nfft // 2
      b, a = scipy.signal.ltisys.zpk2tf(zeros, poles, scale_fac)
      if not isinstance(a, np.ndarray) and a == 1.0:
          a = [1.0]
      fy = 1 / (t_samp * 2.0)
      f = np.linspace(0, fy, n + 1)
      _w, h = scipy.signal.freqs(b, a, f * 2 * np.pi)
      if pitsa:
          h = np.conj(h)
      if freq:
          return h, f
      return h
  \<close>
  The model returns the pair \<open>(h, f)\<close>; without \<^verbatim>\<open>freq\<close> the caller gets its first
  component.
\<close>

definition pazToFreqResp ::
  "complex list \<Rightarrow> complex list \<Rightarrow> real \<Rightarrow> real \<Rightarrow> nat \<Rightarrow> bool
   \<Rightarrow> error + (complex list \<times> real list)" where
  "pazToFreqResp poles zeros scale_fac t_samp nfft pitsa =
     (let n = nfft div 2;
          (b, a) = zpk2tf zeros poles scale_fac
      in and_then (py_div 1 (t_samp * 2.0)) (\<lambda>fy.
         let f = np_linspace 0 fy (int n + 1);
             (w, h) = freqs b a (map (\<lambda>x. x * 2 * pi) f);
             h = (if pitsa then map cnj h else h)
         in Inr (h, f)))"

text \<open>
  The response the specification describes: the rational function with the given
  zeros, poles and gain, \<open>H(s) = k \<cdot> \<Prod>(s - z) / \<Prod>(s - p)\<close>.
\<close>

definition analog_response :: "complex list \<Rightarrow> complex list \<Rightarrow> real \<Rightarrow> complex \<Rightarrow> complex" where
  "analog_response zeros poles k s =
     complex_of_real k * prod_list (map (\<lambda>z. s - z) zeros) / prod_list (map (\<lambda>p. s - p) poles)"

subsection \<open>Arrays, dicts and files of the caller\<close>

text \<open>
  NumPy arrays and dicts are objects that the caller and the callee share by reference,
  and the RESP evaluator works on files. The state holds the float arrays, the complex
  arrays and the dicts, each addressed by a number, with the number of arrays allocated
  so far, and the files by path. A new array takes the next free number. A reference
  has the type of the object it points to.
\<close>

datatype path = Path string | TempFile nat

record world =
  farrays :: "nat \<Rightarrow> real list"
  n_farrays :: nat
  carrays :: "nat \<Rightarrow> complex list"
  n_carrays :: nat
  dicts :: "nat \<Rightarrow> pydict"
  files :: "path \<rightharpoonup> string"
  n_tempfiles :: nat

definition new_farray :: "real list \<Rightarrow> world \<Rightarrow> nat \<times> world" where
  "new_farray xs w =
     (n_farrays w, w\<lparr>farrays := (farrays w)(n_farrays w := xs), n_farrays := Suc (n_farrays w)\<rparr>)"

definition new_carray :: "complex list \<Rightarrow> world \<Rightarrow> nat \<times> world" where
  "new_carray zs w =
     (n_carrays w, w\<lparr>carrays := (carrays w)(n_carrays w := zs), n_carrays := Suc (n_carrays w)\<rparr>)"

definition set_farray :: "nat \<Rightarrow> real list \<Rightarrow> world \<Rightarrow> world" where
  "set_farray r xs w = w\<lparr>farrays := (farrays w)(r := xs)\<rparr>"

definition set_carray :: "nat \<Rightarrow> complex list \<Rightarrow> world \<Rightarrow> world" where
  "set_carray r zs w = w\<lparr>carrays := (carrays w)(r := zs)\<rparr>"

text \<open>
  An in-place product \<^verbatim>\<open>a *= b\<close> of arrays: element by element; a factor with one
  element is broadcast; any other mismatch of the lengths is a ValueError.
\<close>

definition imul :: "'a::times list \<Rightarrow> 'a list \<Rightarrow> error + 'a list" where
  "imul xs ys =
     (if length ys = length xs then Inr (map (\<lambda>(x, y). x * y) (zip xs ys))
      else if length ys = 1 then Inr (map (\<lambda>x. x * hd ys) xs)
      else Inl ValueError)"

subsection \<open>The RESP evaluator\<close>

text \<open>
  \<^verbatim>\<open>data.splitlines()\<close>: the lines of a byte string, each ended by a line feed, by a
  carriage return or by both; \<^verbatim>\<open>os.linesep.join(lines)\<close> puts the separator between
  them.
\<close>

function splitlines_from :: "string \<Rightarrow> string \<Rightarrow> string list" where
  "splitlines_from cur [] = (if cur = [] then [] else [cur])"
| "splitlines_from cur (c # cs) =
     (if c = CHR 0x0D \<and> cs \<noteq> [] \<and> hd cs = CHR 0x0A then cur # splitlines_from [] (tl cs)
      else if c = CHR 0x0D \<or> c = CHR 0x0A then cur # splitlines_from [] cs
      else splitlines_from (cur @ [c]) cs)"
  by pat_completeness auto
termination
  by (relation "measure (\<lambda>(cur, cs). length cs)") auto

definition splitlines :: "string \<Rightarrow> string list" where
  "splitlines contents = splitlines_from [] contents"

fun join_lines :: "string \<Rightarrow> string list \<Rightarrow> string" where
  "join_lines sep [] = []"
| "join_lines sep [l] = l"
| "join_lines sep (l # ls) = l @ sep @ join_lines sep ls"

text \<open>
  \<^verbatim>\<open>numpy.arange(start, stop, step)\<close> (library function) for floats:
  \<open>ceil((stop - start) / step)\<close> samples \<open>start + i * step\<close>.
\<close>

definition np_arange :: "real \<Rightarrow> real \<Rightarrow> real \<Rightarrow> error + real list" where
  "np_arange start stop step =
     (if step = 0 then Inl ZeroDivisionError
      else Inr (map (\<lambda>i. start + real i * step) [0..<nat \<lceil>(stop - start) / step\<rceil>]))"

text \<open>
  The external evresp library is a parameter: it is called with the identifiers, the
  date (year and day of the year, formatted by the source as \<^verbatim>\<open>"%d,%3d"\<close>), the units,
  the contents of the file it is given by name (if that file exists), the frequencies
  and the flags, and returns a pointer to a response: its values \<open>rvec\<close> and frequencies
  \<open>freqs\<close>, \<open>nfreqs\<close> each, or the NULL pointer.
\<close>

record evresp_call =
  sta :: string
  cha :: string
  net :: string
  locid :: string
  datime :: "nat \<times> nat"
  unts :: string
  fn_contents :: "string option"
  freqs_in :: "real list"
  rtyp :: string
  vbs :: string

type_synonym evresp_response = "complex list \<times> real list"

text \<open>
  The libraries that \<^verbatim>\<open>seisSim\<close> and \<^verbatim>\<open>evalresp\<close> call and that are not part
  of the module: the real FFT and its inverse (NumPy), the linear detrend and the next
  power of two (other modules of the package), the evresp library and the line
  separator of the operating system. Each may raise.
\<close>

record libraries =
  np_fft_rfft :: "real list \<Rightarrow> nat \<Rightarrow> error + complex list"
  np_fft_irfft :: "complex list \<Rightarrow> error + real list"
  simpleDetrend :: "real list \<Rightarrow> error + real list"
  util_nextpow2 :: "nat \<Rightarrow> error + nat"
  clibevresp_evresp :: "evresp_call \<Rightarrow> evresp_response option"
  os_linesep :: string

text \<open>
  \<^verbatim>\<open>
  def evalresp(t_samp, nfft, filename, date, station='*', channel='*',
               network='*', locid='*', units="VEL", freq=False, debug=False):
      data = open(filename, 'rb').read()
      fh = NamedTemporaryFile()
      tempfile = fh.name
      fh.write(os.linesep.join(data.splitlines()))
      fh.close()
      ...
      n = nfft // 2
      fy = 1 / (t_samp * 2.0)
      freqs = np.arange(0, fy + fy / n, fy / n)
      ...
      res = clibevresp.evresp(sta, cha, net, locid, datime, unts, fn,
                              freqs, nfreqs, rtyp, vbs, start_stage,
                              stop_stage, stdio_flag, C.c_int(0))
      h = np.array([complex(res[0].rvec[i].real, res[0].rvec[i].imag)
                    for i in xrange(res[0].nfreqs)])
      f = np.array([res[0].freqs[i] for i in xrange(res[0].nfreqs)])
      h = np.conj(h)
      h[-1] = h[-1].real + 0.0j
      # close temporary file
      try:
          os.remove(tempfile)
      except:
          pass
      if freq:
          return h, f
      return h
  \<close>
  \<^verbatim>\<open>NamedTemporaryFile\<close> (of \<^verbatim>\<open>obspy.core.util.base\<close>) makes a new file that stays
  on disk until it is removed: it takes the next unused temporary name. Opening a file
  that does not exist is an IOError, dereferencing the NULL pointer (\<^verbatim>\<open>res[0]\<close>) a
  ValueError, and \<^verbatim>\<open>h[-1]\<close> on an empty array an IndexError. An exception leaves the
  function at once, with the state as it is at that point. The model returns the pair
  \<open>(h, f)\<close>.
\<close>

definition evalresp ::
  "libraries \<Rightarrow> real \<Rightarrow> nat \<Rightarrow> path \<Rightarrow> nat \<times> nat \<Rightarrow> string \<Rightarrow> string \<Rightarrow> string \<Rightarrow> string
   \<Rightarrow> string \<Rightarrow> bool \<Rightarrow> world \<Rightarrow> (error + (complex list \<times> real list)) \<times> world" where
  "evalresp lib t_samp nfft filename date station channel network loc units debug w =
     (case files w filename of
        None \<Rightarrow> (Inl IOError, w)
      | Some contents \<Rightarrow>
          let tempfile = TempFile (n_tempfiles w);
              w = w\<lparr>files := (files w)(tempfile \<mapsto>
                                join_lines (os_linesep lib) (splitlines contents)),
                     n_tempfiles := Suc (n_tempfiles w)\<rparr>;
              n = nfft div 2
          in case py_div 1 (t_samp * 2.0) of
               Inl e \<Rightarrow> (Inl e, w)
             | Inr fy \<Rightarrow>
                (case py_div fy (real n) of
                   Inl e \<Rightarrow> (Inl e, w)
                 | Inr step \<Rightarrow>
                    (case np_arange 0 (fy + step) step of
                       Inl e \<Rightarrow> (Inl e, w)
                     | Inr frequencies \<Rightarrow>
                        (case clibevresp_evresp lib
                                \<lparr>sta = station, cha = channel, net = network, locid = loc,
                                 datime = date, unts = units, fn_contents = files w tempfile,
                                 freqs_in = frequencies, rtyp = ''CS'',
                                 vbs = (if debug then ''-v'' else [])\<rparr> of
                           None \<Rightarrow> (Inl ValueError, w)
                         | Some (rvec, rfreqs) \<Rightarrow>
                            let h = map cnj rvec
                            in if h = [] then (Inl IndexError, w)
                               else let h = h[length h - 1 :=
                                              complex_of_real (Re (last h)) + Complex 0.0 0.0];
                                        w = w\<lparr>files := (files w)(tempfile := None)\<rparr>
                                    in (Inr (h, rfreqs), w)))))"

subsection \<open>The simulation engine\<close>

text \<open>The arguments of \<^verbatim>\<open>seisSim\<close>, with the names of the source.\<close>

record sim_args =
  data :: nat
  samp_rate :: real
  paz_remove :: "nat option"
  paz_simulate :: "nat option"
  remove_sensitivity :: bool
  simulate_sensitivity :: bool
  water_level :: real
  zero_mean :: bool
  taper :: bool
  taper_fraction :: real
  pre_filt :: "(real \<times> real \<times> real \<times> real) option"
  seedresp :: "nat option"
  nfft_pow2 :: bool

text \<open>The truth value of a descriptor: \<^verbatim>\<open>None\<close> and the empty dict are false.\<close>

definition truthy :: "world \<Rightarrow> nat option \<Rightarrow> bool" where
  "truthy w d = (case d of None \<Rightarrow> False | Some r \<Rightarrow> dicts w r \<noteq> [])"

text \<open>
  \<^verbatim>\<open>
  for d in [paz_remove, paz_simulate]:
      if d is None:
          continue
      if not isinstance(d, dict):
          raise TypeError("Expected dictionary, got %s." % type(d))
      for key in ['poles', 'zeros', 'gain']:
          if key not in d:
              raise KeyError("Missing key: %s" % key)
  \<close>
  A reference to a dict points to a dict, so the \<^verbatim>\<open>isinstance\<close> test holds.
\<close>

fun check_keys :: "pydict \<Rightarrow> string list \<Rightarrow> error + unit" where
  "check_keys d [] = Inr ()"
| "check_keys d (key # keys) =
     (if map_of d key = None then Inl (KeyError (''Missing key: '' @ key))
      else check_keys d keys)"

fun check_descriptors :: "world \<Rightarrow> nat option list \<Rightarrow> error + unit" where
  "check_descriptors w [] = Inr ()"
| "check_descriptors w (None # ds) = check_descriptors w ds"
| "check_descriptors w (Some r # ds) =
     and_then (check_keys (dicts w r) [''poles'', ''zeros'', ''gain''])
       (\<lambda>u. check_descriptors w ds)"

text \<open>\<^verbatim>\<open>d[key]\<close> used as a string, and as a date.\<close>

definition getitem_str :: "pydict \<Rightarrow> string \<Rightarrow> error + string" where
  "getitem_str d k =
     (case map_of d k of
        None \<Rightarrow> Inl (KeyError k)
      | Some (PyStr x) \<Rightarrow> Inr x
      | Some _ \<Rightarrow> Inl (TypeError ''a string is expected''))"

definition getitem_date :: "pydict \<Rightarrow> string \<Rightarrow> error + nat \<times> nat" where
  "getitem_date d k =
     (case map_of d k of
        None \<Rightarrow> Inl (KeyError k)
      | Some (PyDate y j) \<Rightarrow> Inr (y, j)
      | Some _ \<Rightarrow> Inl (TypeError ''a date is expected''))"

text \<open>
  The frequency window of the pre-filter, element by element; of the three assignments
  of the source the last one that selects an element determines it.
  \<^verbatim>\<open>
  fl1, fl2, fl3, fl4 = pre_filt
  idx0 = np.where((freqs >= fl1) & (freqs < fl2))
  idx1 = np.where((freqs >= fl2) & (freqs <= fl3))
  idx2 = np.where((freqs > fl3) & (freqs <= fl4))
  cos_win = np.zeros(freqs.size)
  cos_win[idx0] = 0.5 * (1 - np.cos((np.pi * (fl1 - freqs[idx0])) / (fl2 - fl1)))
  cos_win[idx1] = 1.0
  cos_win[idx2] = 0.5 * (1 + np.cos((np.pi * (fl3 - freqs[idx2])) / (fl4 - fl3)))
  \<close>
\<close>

definition cos_win :: "real \<times> real \<times> real \<times> real \<Rightarrow> real list \<Rightarrow> real list" where
  "cos_win corners fs =
     (case corners of (fl1, fl2, fl3, fl4) \<Rightarrow>
        map (\<lambda>f. if f > fl3 \<and> f \<le> fl4 then 0.5 * (1 + cos ((pi * (fl3 - f)) / (fl4 - fl3)))
                  else if f \<ge> fl2 \<and> f \<le> fl3 then 1.0
                  else if f \<ge> fl1 \<and> f < fl2 then 0.5 * (1 - cos ((pi * (fl1 - f)) / (fl2 - fl1)))
                  else 0.0) fs)"

text \<open>
  A descriptor that counts as true, with its dict: \<^verbatim>\<open>if paz_remove:\<close>.
\<close>

definition descriptor :: "world \<Rightarrow> nat option \<Rightarrow> pydict option" where
  "descriptor w d = (case d of None \<Rightarrow> None | Some r \<Rightarrow> if dicts w r = [] then None else Some (dicts w r))"

text \<open>An action on the state may raise; then the state is the one reached so far.\<close>

definition seq ::
  "(world \<Rightarrow> (error + 'a) \<times> world) \<Rightarrow> ('a \<Rightarrow> world \<Rightarrow> (error + 'b) \<times> world)
   \<Rightarrow> world \<Rightarrow> (error + 'b) \<times> world" where
  "seq m f w = (case m w of (Inl e, w') \<Rightarrow> (Inl e, w') | (Inr x, w') \<Rightarrow> f x w')"

definition no_effect :: "error + 'a \<Rightarrow> world \<Rightarrow> (error + 'a) \<times> world" where
  "no_effect r w = (r, w)"

text \<open>
  \<^verbatim>\<open>
  ndat = len(data)
  data = data.astype("float64")
  if zero_mean:
      data -= data.mean()
  if taper:
      data *= cosTaper(ndat, taper_fraction)
  \<close>
  \<^verbatim>\<open>astype\<close> makes a new array; the two updates are made in place, on that array.
\<close>

definition np_mean :: "real list \<Rightarrow> real" where
  "np_mean xs = sum_list xs / real (length xs)"

definition stage_taper :: "sim_args \<Rightarrow> world \<Rightarrow> (error + nat) \<times> world" where
  "stage_taper a w =
     (let ndat = length (farrays w (data a));
          (d, w) = new_farray (farrays w (data a)) w;
          w = (if zero_mean a
               then set_farray d (map (\<lambda>x. x - np_mean (farrays w d)) (farrays w d)) w
               else w)
      in if taper a
         then seq (no_effect (cosTaper ndat (taper_fraction a))) (\<lambda>win.
              seq (no_effect (imul (farrays w d) win)) (\<lambda>xs w.
              (Inr d, set_farray d xs w))) w
         else (Inr d, w))"

text \<open>
  \<^verbatim>\<open>
  if nfft_pow2:
      nfft = util.nextpow2(2 * ndat)
  elif ndat & 1:  # check if even
      nfft = 2 * (ndat + 1)
  else:
      nfft = 2 * ndat
  \<close>
\<close>

definition choose_nfft :: "libraries \<Rightarrow> sim_args \<Rightarrow> nat \<Rightarrow> error + nat" where
  "choose_nfft lib a ndat =
     (if nfft_pow2 a then util_nextpow2 lib (2 * ndat)
      else if odd ndat then Inr (2 * (ndat + 1))
      else Inr (2 * ndat))"

text \<open>\<^verbatim>\<open>data = np.fft.rfft(data, n=nfft)\<close>: the spectrum is a new array.\<close>

definition stage_rfft :: "libraries \<Rightarrow> nat \<Rightarrow> nat \<Rightarrow> world \<Rightarrow> (error + nat) \<times> world" where
  "stage_rfft lib d nfft =
     seq (\<lambda>w. (np_fft_rfft lib (farrays w d) nfft, w)) (\<lambda>spectrum w.
       let (sp, w) = new_carray spectrum w in (Inr sp, w))"

text \<open>
  \<^verbatim>\<open>pazToFreqResp(paz['poles'], paz['zeros'], paz['gain'], delta, nfft, ...)\<close>
\<close>

definition paz_response :: "pydict \<Rightarrow> real \<Rightarrow> nat \<Rightarrow> error + (complex list \<times> real list)" where
  "paz_response paz delta nfft =
     and_then (getitem_clist paz ''poles'') (\<lambda>ps.
     and_then (getitem_clist paz ''zeros'') (\<lambda>zs.
     and_then (getitem_float paz ''gain'') (\<lambda>g.
     pazToFreqResp ps zs g delta nfft True)))"

text \<open>
  \<^verbatim>\<open>
  if paz_remove:
      freq_response, freqs = pazToFreqResp(paz_remove['poles'],
                                           paz_remove['zeros'],
                                           paz_remove['gain'], delta, nfft,
                                           freq=True)
  if seedresp:
      freq_response, freqs = evalresp(delta, nfft, seedresp['filename'],
                                      seedresp['date'],
                                      units=seedresp['units'], freq=True)
  \<close>
  The response is a new array either time; the result is the reference to it with the
  frequencies, if there is a response to remove.
\<close>

definition stage_paz_remove ::
  "sim_args \<Rightarrow> real \<Rightarrow> nat \<Rightarrow> world \<Rightarrow> (error + (nat \<times> real list) option) \<times> world" where
  "stage_paz_remove a delta nfft w =
     (case descriptor w (paz_remove a) of
        None \<Rightarrow> (Inr None, w)
      | Some paz \<Rightarrow>
          seq (no_effect (paz_response paz delta nfft)) (\<lambda>(h, f) w.
            let (r, w) = new_carray h w in (Inr (Some (r, f)), w)) w)"

definition stage_seedresp ::
  "libraries \<Rightarrow> sim_args \<Rightarrow> real \<Rightarrow> nat \<Rightarrow> (nat \<times> real list) option \<Rightarrow> world
   \<Rightarrow> (error + (nat \<times> real list) option) \<times> world" where
  "stage_seedresp lib a delta nfft freq_response w =
     (case descriptor w (seedresp a) of
        None \<Rightarrow> (Inr freq_response, w)
      | Some sr \<Rightarrow>
          seq (no_effect (getitem_str sr ''filename'')) (\<lambda>filename.
          seq (no_effect (getitem_date sr ''date'')) (\<lambda>date.
          seq (no_effect (getitem_str sr ''units'')) (\<lambda>units.
          seq (evalresp lib delta nfft (Path filename) date ''*'' ''*'' ''*'' ''*'' units False)
            (\<lambda>(h, f) w.
               let (r, w) = new_carray h w in (Inr (Some (r, f)), w))))) w)"

text \<open>
  \<^verbatim>\<open>
  if paz_remove or seedresp:
      if pre_filt:
          ...
          data *= cos_win
      specInv(freq_response, water_level)
      data *= np.conj(freq_response)
      del freq_response
  \<close>
  \<^verbatim>\<open>specInv\<close> works in place on the response array, the two products in place on the
  spectrum.
\<close>

definition stage_deconvolve ::
  "sim_args \<Rightarrow> nat \<Rightarrow> (nat \<times> real list) option \<Rightarrow> world \<Rightarrow> (error + unit) \<times> world" where
  "stage_deconvolve a sp freq_response w =
     (case freq_response of
        None \<Rightarrow> (Inr (), w)
      | Some (r, f) \<Rightarrow>
          seq (\<lambda>w. case pre_filt a of
                      None \<Rightarrow> (Inr (), w)
                    | Some corners \<Rightarrow>
                        seq (no_effect (imul (carrays w sp)
                                          (map complex_of_real (cos_win corners f))))
                          (\<lambda>xs w. (Inr (), set_carray sp xs w)) w) (\<lambda>u.
          seq (\<lambda>w. (specInv (carrays w r) (water_level a), w)) (\<lambda>(inverted, found) w.
          let w = set_carray r inverted w
          in seq (no_effect (imul (carrays w sp) (map cnj (carrays w r))))
               (\<lambda>xs w. (Inr (), set_carray sp xs w)) w)) w)"

text \<open>
  \<^verbatim>\<open>
  if paz_simulate:
      data *= np.conj(pazToFreqResp(paz_simulate['poles'],
              paz_simulate['zeros'], paz_simulate['gain'], delta, nfft))
  \<close>
\<close>

definition stage_simulate ::
  "sim_args \<Rightarrow> real \<Rightarrow> nat \<Rightarrow> nat \<Rightarrow> world \<Rightarrow> (error + unit) \<times> world" where
  "stage_simulate a delta nfft sp w =
     (case descriptor w (paz_simulate a) of
        None \<Rightarrow> (Inr (), w)
      | Some paz \<Rightarrow>
          seq (no_effect (paz_response paz delta nfft)) (\<lambda>(h, f) w.
          seq (no_effect (imul (carrays w sp) (map cnj h))) (\<lambda>xs w.
          (Inr (), set_carray sp xs w)) w) w)"

text \<open>
  \<^verbatim>\<open>
  data = np.fft.irfft(data)[0:ndat]
  data = simpleDetrend(data)
  if paz_remove and remove_sensitivity:
      data /= paz_remove['sensitivity']
  if paz_simulate and simulate_sensitivity:
      data *= paz_simulate['sensitivity']
  return data
  \<close>
  The inverse transform gives a new array, which the detrend and the two scalings
  update in place. NumPy's division of an array by zero raises nothing (it gives inf
  or nan, which the model does not have: it has the value of HOL's total division).
\<close>

definition stage_back ::
  "libraries \<Rightarrow> sim_args \<Rightarrow> nat \<Rightarrow> nat \<Rightarrow> world \<Rightarrow> (error + nat) \<times> world" where
  "stage_back lib a ndat sp =
     seq (\<lambda>w. (np_fft_irfft lib (carrays w sp), w)) (\<lambda>x w.
     let (d, w) = new_farray (take ndat x) w
     in seq (\<lambda>w. (simpleDetrend lib (farrays w d), w)) (\<lambda>y w.
        let w = set_farray d y w
        in seq (\<lambda>w. case descriptor w (paz_remove a) of
                       None \<Rightarrow> (Inr (), w)
                     | Some paz \<Rightarrow>
                         if remove_sensitivity a
                         then seq (no_effect (getitem_float paz ''sensitivity'')) (\<lambda>s w.
                                (Inr (), set_farray d (map (\<lambda>x. x / s) (farrays w d)) w)) w
                         else (Inr (), w)) (\<lambda>u.
           seq (\<lambda>w. case descriptor w (paz_simulate a) of
                       None \<Rightarrow> (Inr (), w)
                     | Some paz \<Rightarrow>
                         if simulate_sensitivity a
                         then seq (no_effect (getitem_float paz ''sensitivity'')) (\<lambda>s w.
                                (Inr (), set_farray d (map (\<lambda>x. x * s) (farrays w d)) w)) w
                         else (Inr (), w)) (\<lambda>u w.
           (Inr d, w))) w) w)"

text \<open>
  \<^verbatim>\<open>
  def seisSim(data, samp_rate, paz_remove=None, paz_simulate=None,
              remove_sensitivity=True, simulate_sensitivity=True,
              water_level=600.0, zero_mean=True, taper=True,
              taper_fraction=0.05, pre_filt=None, seedresp=None,
              nfft_pow2=False, **_kwargs):
      if not paz_remove and not paz_simulate and not seedresp:
          msg = "Neither inverse nor forward instrument simulation specified."
          raise TypeError(msg)
      for d in [paz_remove, paz_simulate]:
          ...
      delta = 1.0 / samp_rate
      ndat = len(data)
      ...
  \<close>
  The result is the reference to the returned array.
\<close>

definition seisSim :: "libraries \<Rightarrow> sim_args \<Rightarrow> world \<Rightarrow> (error + nat) \<times> world" where
  "seisSim lib a w =
     (if \<not> truthy w (paz_remove a) \<and> \<not> truthy w (paz_simulate a) \<and> \<not> truthy w (seedresp a)
      then (Inl (TypeError ''Neither inverse nor forward instrument simulation specified.''), w)
      else
        seq (no_effect (check_descriptors w [paz_remove a, paz_simulate a])) (\<lambda>u.
        seq (no_effect (py_div 1.0 (samp_rate a))) (\<lambda>delta.
        let ndat = length (farrays w (data a))
        in seq (stage_taper a) (\<lambda>d.
           seq (no_effect (choose_nfft lib a ndat)) (\<lambda>nfft.
           seq (stage_rfft lib d nfft) (\<lambda>sp.
           seq (stage_paz_remove a delta nfft) (\<lambda>freq_response.
           seq (stage_seedresp lib a delta nfft freq_response) (\<lambda>freq_response.
           seq (stage_deconvolve a sp freq_response) (\<lambda>u.
           seq (stage_simulate a delta nfft sp) (\<lambda>u.
           stage_back lib a ndat sp))))))))) w)"

text \<open>
  The libraries for the examples. \<^verbatim>\<open>numpy.fft.rfft(a, n)\<close> and \<^verbatim>\<open>numpy.fft.irfft(a)\<close>
  (library functions) as NumPy documents them: the discrete Fourier transform of the
  real signal, cropped or padded with zeros to \<open>n\<close> points, at the frequencies
  \<open>0, \<dots>, n div 2\<close>, and the real signal of \<open>2 (m - 1)\<close> points whose transform has
  the \<open>m\<close> given bins; a number of points below one is a ValueError.
\<close>

definition rfft_documented :: "real list \<Rightarrow> nat \<Rightarrow> error + complex list" where
  "rfft_documented a n =
     (if n < 1 then Inl ValueError
      else let x = take n a @ replicate (n - length a) 0
           in Inr (map (\<lambda>k. sum_list (map (\<lambda>m. complex_of_real (x ! m)
                              * exp (- (2 * complex_of_real pi * \<i> * of_nat m * of_nat k / of_nat n)))
                            [0..<n])) [0..<n div 2 + 1]))"

definition irfft_documented :: "complex list \<Rightarrow> error + real list" where
  "irfft_documented a =
     (let m = length a; n = 2 * (m - 1)
      in if m < 2 then Inl ValueError
         else Inr (map (\<lambda>j. Re (sum_list (map (\<lambda>k. (if k < m then a ! k else cnj (a ! (n - k)))
                              * exp (2 * complex_of_real pi * \<i> * of_nat j * of_nat k / of_nat n))
                            [0..<n])) / real n) [0..<n]))"

text \<open>
  Modelled from the spec: \<^verbatim>\<open>obspy.signal.detrend.simple\<close> is not among the sources.
  The specification has it subtract the line through the first and the last sample;
  there is no first sample in an empty trace (an IndexError).
\<close>

definition detrend_documented :: "real list \<Rightarrow> error + real list" where
  "detrend_documented xs =
     (if xs = [] then Inl IndexError
      else let ndat = length xs; x1 = hd xs; x2 = last xs
           in Inr (map (\<lambda>i. xs ! i - (x1 + real i * (x2 - x1) / real (ndat - 1))) [0..<ndat]))"

text \<open>
  Modelled from the spec: \<^verbatim>\<open>obspy.signal.util.nextpow2\<close> is not among the sources.
  The specification has it give the next power of two at or above its argument.
\<close>

definition nextpow2_documented :: "nat \<Rightarrow> error + nat" where
  "nextpow2_documented i = Inr (if i \<le> 1 then 1 else 2 ^ nat \<lceil>log 2 (real i)\<rceil>)"

text \<open>
  Modelled from the spec: the evresp library is not among the sources. The
  specification has any failure to find a matching epoch be a hard failure, without a
  partial result; the example library finds no epoch in any file, and returns the NULL
  pointer. Lines are separated by a line feed.
\<close>

definition documented_libraries :: libraries where
  "documented_libraries =
     \<lparr>np_fft_rfft = rfft_documented, np_fft_irfft = irfft_documented,
      simpleDetrend = detrend_documented, util_nextpow2 = nextpow2_documented,
      clibevresp_evresp = (\<lambda>c. None), os_linesep = [CHR 0x0A]\<rparr>"

text \<open>
  What a call leaves alone: the dicts, and every array that existed before the call.
\<close>

definition kept :: "world \<Rightarrow> world \<Rightarrow> bool" where
  "kept w w' =
     (dicts w' = dicts w
      \<and> n_farrays w \<le> n_farrays w' \<and> n_carrays w \<le> n_carrays w'
      \<and> (\<forall>r < n_farrays w. farrays w' r = farrays w r)
      \<and> (\<forall>r < n_carrays w. carrays w' r = carrays w r))"

text \<open>
  An action spares the objects that exist in \<open>w0\<close>: from any state that has kept
  them it leads, whether it returns or raises, to a state that has kept them, and
  what it returns satisfies \<open>Q\<close>.
\<close>

definition spares ::
  "world \<Rightarrow> (world \<Rightarrow> (error + 'a) \<times> world) \<Rightarrow> ('a \<Rightarrow> bool) \<Rightarrow> bool" where
  "spares w0 m Q =
     (\<forall>w r w'. kept w0 w \<longrightarrow> m w = (r, w') \<longrightarrow> kept w0 w' \<and> (\<forall>x. r = Inr x \<longrightarrow> Q x))"

text \<open>
  Example states and calls. A trace of two samples held by the caller as array 0, with
  the instrument of the docstring example as dict 0, corrected with the default
  options at 200 Hz.
\<close>

definition sim_world :: world where
  "sim_world =
     \<lparr>farrays = (\<lambda>r. [])(0 := [1, 2]), n_farrays = 1,
      carrays = (\<lambda>r. []), n_carrays = 0,
      dicts = (\<lambda>r. [])(0 := paz_example),
      files = Map.empty, n_tempfiles = 0\<rparr>"

definition sim_call :: sim_args where
  "sim_call =
     \<lparr>data = 0, samp_rate = 200, paz_remove = Some 0, paz_simulate = None,
      remove_sensitivity = True, simulate_sensitivity = True, water_level = 600,
      zero_mean = True, taper = True, taper_fraction = 0.05, pre_filt = None,
      seedresp = None, nfft_pow2 = False\<rparr>"

text \<open>A call without any descriptor, on the same trace.\<close>

definition bare_call :: sim_args where
  "bare_call = sim_call\<lparr>paz_remove := None\<rparr>"

text \<open>A file system with one RESP file, and no temporary file yet.\<close>

definition resp_world :: world where
  "resp_world =
     \<lparr>farrays = (\<lambda>r. []), n_farrays = 0, carrays = (\<lambda>r. []), n_carrays = 0,
      dicts = (\<lambda>r. []),
      files = [Path ''RESP.BW.FURT..EHZ'' \<mapsto> ''B050F03     Station:     FURT''],
      n_tempfiles = 0\<rparr>"

section \<open>Properties\<close>

subsection \<open>The Wood-Anderson constant\<close>

lemma Complex_1_0: "Complex 1 0 = 1"
  by (simp add: complex_eq_iff)

lemma WA_poles:
  "getitem_clist WOODANDERSON ''poles'' = Inr [Complex (-6.283) 4.7124, Complex (-10.9954) 0]"
  by (simp add: WOODANDERSON_def getitem_clist_def complex_eq_iff)

lemma WA_zeros: "getitem_clist WOODANDERSON ''zeros'' = Inr [0]"
  by (simp add: WOODANDERSON_def getitem_clist_def complex_eq_iff)

lemma WA_gain: "getitem_float WOODANDERSON ''gain'' = Inr 1"
  by (simp add: WOODANDERSON_def getitem_float_def)

lemma WA_sens: "getitem_float WOODANDERSON ''sensitivity'' = Inr 2080"
  by (simp add: WOODANDERSON_def getitem_float_def)

text \<open>
  Claim C1. The reference Wood-Anderson instrument is said to have the complex-conjugate
  pole pair \<open>-6.283 \<plusminus> 4.7124j\<close>. The constant of the source lacks the imaginary unit
  in its second pole: the pole list it holds is \<open>[-6.283 + 4.7124j, -10.9954 + 0j]\<close>,
  which is not the conjugate pair. The zero, the gain and the sensitivity are as said.
\<close>

theorem WOODANDERSON_poles_not_conjugate_pair:
  "getitem_clist WOODANDERSON ''poles'' = Inr [Complex (-6.283) 4.7124, Complex (-10.9954) 0]
   \<and> getitem_clist WOODANDERSON ''poles''
       \<noteq> Inr [Complex (-6.283) 4.7124, Complex (-6.283) (-4.7124)]
   \<and> getitem_clist WOODANDERSON ''zeros'' = Inr [0]
   \<and> getitem_float WOODANDERSON ''gain'' = Inr 1
   \<and> getitem_float WOODANDERSON ''sensitivity'' = Inr 2080"
  by (simp add: WOODANDERSON_def getitem_clist_def getitem_float_def complex_eq_iff)

subsection \<open>Amplitude at a frequency\<close>

lemma numerator_loop_prod:
  "numerator_loop jw zs fac = fac * prod_list (map (\<lambda>z. jw - z) zs)"
  by (induction zs arbitrary: fac) (simp_all add: mult.assoc)

lemma denominator_loop_prod:
  "jw \<notin> set ps \<Longrightarrow>
   denominator_loop jw ps fac = Inr (fac / prod_list (map (\<lambda>p. jw - p) ps))"
  by (induction ps arbitrary: fac) (simp_all add: divide_divide_eq_left)

lemma denominator_loop_fail:
  "jw \<in> set ps \<Longrightarrow> denominator_loop jw ps fac = Inl ZeroDivisionError"
  by (induction ps arbitrary: fac) auto

lemma WA_amp:
  "paz2AmpValueOfFreqResp WOODANDERSON f =
   Inr (cmod (Complex 0 (2 * pi * f) /
          ((Complex 0 (2 * pi * f) - Complex (-6.283) 4.7124) *
           (Complex 0 (2 * pi * f) - Complex (-10.9954) 0))) * 1)"
  by (simp add: paz2AmpValueOfFreqResp_def and_then_def WA_poles WA_zeros WA_gain Let_def
      numerator_loop_prod denominator_loop_prod Complex_eq_0 Complex_1_0)

lemma paz_example_amp:
  "f \<noteq> 0 \<Longrightarrow> \<exists>a. a \<noteq> 0 \<and> paz2AmpValueOfFreqResp paz_example f = Inr a"
  by (simp add: paz2AmpValueOfFreqResp_def and_then_def paz_example_def getitem_clist_def
      getitem_float_def Let_def numerator_loop_prod denominator_loop_prod Complex_eq_0
      Complex_1_0)

subsection \<open>Magnitude estimation on lists of readings\<close>

lemma zip3_take:
  "zip (take (min (length ps) (min (length as) (length ts))) ps)
     (zip (take (min (length ps) (min (length as) (length ts))) as)
        (take (min (length ps) (min (length as) (length ts))) ts))
   = zip ps (zip as ts)"
  by (simp add: take_zip [symmetric])

text \<open>
  Claim C3, as stated: \<^verbatim>\<open>estimateMagnitude\<close> fails whenever its three lists have
  mismatched lengths or are empty. It does not fail on mismatched lengths: with two
  instruments, one amplitude and one time span it returns a magnitude, the one of the
  single reading that \<^verbatim>\<open>zip\<close> pairs up.
\<close>

theorem estimateMagnitude_mismatch_counterexample:
  "\<not> isl (estimateMagnitude (Several [paz_example, paz_example]) (Several [3340000])
            (Several [0.065]) 0.255)
   \<and> estimateMagnitude (Several [paz_example, paz_example]) (Several [3340000])
        (Several [0.065]) 0.255
     = estimateMagnitude (Single paz_example) (Single 3340000) (Single 0.065) 0.255"
proof -
  obtain a where a: "a \<noteq> 0" "paz2AmpValueOfFreqResp paz_example (100 / 13) = Inr a"
    using paz_example_amp [of "100 / 13"] by auto
  have s: "getitem_float paz_example ''sensitivity'' = Inr 671140000"
    by (simp add: getitem_float_def paz_example_def)
  have "\<not> isl (estimateMagnitude (Several [paz_example, paz_example]) (Several [3340000])
            (Several [0.065]) 0.255)"
    using a
    by (simp add: estimateMagnitude_def estimateWoodAndersonAmplitude_def and_then_def
        py_div_def WA_amp WA_sens s)
  moreover have "estimateMagnitude (Several [paz_example, paz_example]) (Several [3340000])
        (Several [0.065]) 0.255
     = estimateMagnitude (Single paz_example) (Single 3340000) (Single 0.065) 0.255"
    by (simp add: estimateMagnitude_def)
  ultimately show ?thesis by simp
qed

text \<open>
  Claim C3, amended: called with three lists, \<^verbatim>\<open>estimateMagnitude\<close> fails, with the
  ZeroDivisionError of dividing the sum by a count of zero, whenever one of the lists is
  empty; lists of different lengths are not rejected: the readings are paired up to the
  length of the shortest list and the call behaves as on the lists cut to that length.
\<close>

theorem estimateMagnitude_lists:
  "(ps = [] \<or> as = [] \<or> ts = [] \<longrightarrow>
      estimateMagnitude (Several ps) (Several as) (Several ts) h_dist = Inl ZeroDivisionError)
   \<and> estimateMagnitude (Several ps) (Several as) (Several ts) h_dist
     = (let n = min (length ps) (min (length as) (length ts))
        in estimateMagnitude (Several (take n ps)) (Several (take n as)) (Several (take n ts))
             h_dist)"
proof
  show "ps = [] \<or> as = [] \<or> ts = [] \<longrightarrow>
      estimateMagnitude (Several ps) (Several as) (Several ts) h_dist = Inl ZeroDivisionError"
    by (auto simp add: estimateMagnitude_def and_then_def py_div_def)
next
  show "estimateMagnitude (Several ps) (Several as) (Several ts) h_dist
     = (let n = min (length ps) (min (length as) (length ts))
        in estimateMagnitude (Several (take n ps)) (Several (take n as)) (Several (take n ts))
             h_dist)"
    by (simp add: estimateMagnitude_def Let_def zip3_take)
qed

theorem estimateMagnitude_lists_witness:
  "estimateMagnitude (Several [paz_example, paz_example]) (Several []) (Several [0.065, 0.1])
     0.255 = Inl ZeroDivisionError"
  using estimateMagnitude_lists [of "[paz_example, paz_example]" "[]" "[0.065, 0.1]" "0.255"]
  by simp

subsection \<open>Cosine taper\<close>

lemma length_linspace: "length (np_linspace a b n) = nat n"
  by (auto simp: np_linspace_def Let_def)

lemma linspace_nth:
  "2 \<le> num \<Longrightarrow> i < nat num \<Longrightarrow>
   np_linspace a b num ! i = real i * ((b - a) / real_of_int (num - 1)) + a"
  by (simp add: np_linspace_def Let_def)

text \<open>
  Where the two ramps fit into the window, that is where twice the ramp length does not
  exceed \<open>npts\<close>, the taper is returned, has \<open>npts\<close> samples and stays within \<open>[0, 1]\<close>.
\<close>

lemma cosTaper_ok:
  assumes "0 \<le> p" "p \<le> 1"
    and "2 * (if p = 0 \<or> p = 1 then py_int (real npts * p / 2)
              else py_int (real npts * p / 2) + 1) \<le> int npts"
  shows "\<exists>w. cosTaper npts p = Inr w \<and> length w = npts \<and> (\<forall>x\<in>set w. 0 \<le> x \<and> x \<le> 1)"
proof -
  define frac where
    "frac = (if p = 0.0 \<or> p = 1.0 then py_int (real npts * p / 2.0)
             else py_int (real npts * p / 2.0) + 1)"
  have f0: "0 \<le> frac" using assms(1) by (auto simp: frac_def py_int_def)
  have le: "2 * frac \<le> int npts" using assms(3) by (auto simp: frac_def split: if_splits)
  have c: "0 \<le> 0.5 * (1 + cos t) \<and> 0.5 * (1 + cos t) \<le> 1" for t :: real
  proof -
    have "- 1 \<le> cos t" "cos t \<le> 1" by simp_all
    then have "0 \<le> 1 + cos t" "1 + cos t \<le> 2" by linarith+
    then show ?thesis by simp
  qed
  have "cosTaper npts p =
      and_then (np_ones (int npts - 2 * frac)) (\<lambda>middle.
           Inr (map (\<lambda>t. 0.5 * (1 + cos t)) (np_linspace pi (2 * pi) frac)
                @ middle
                @ map (\<lambda>t. 0.5 * (1 + cos t)) (np_linspace 0 pi frac)))"
    unfolding cosTaper_def frac_def Let_def ..
  then have "cosTaper npts p = Inr (map (\<lambda>t. 0.5 * (1 + cos t)) (np_linspace pi (2 * pi) frac)
                @ replicate (nat (int npts - 2 * frac)) 1
                @ map (\<lambda>t. 0.5 * (1 + cos t)) (np_linspace 0 pi frac))"
    using le by (simp add: np_ones_def and_then_def)
  moreover have "nat frac + (nat (int npts - 2 * frac) + nat frac) = npts"
    using f0 le by linarith
  ultimately show ?thesis using c by (auto simp: length_linspace)
qed

text \<open>
  Claim C4: for every \<open>n \<ge> 0\<close> and every fraction in \<open>[0, 1]\<close> the taper is returned
  without error and has \<open>n\<close> samples in \<open>[0, 1]\<close>. For a fraction strictly between 0
  and 1 the ramp length is \<open>int(n * p / 2) + 1\<close>, and twice that can exceed \<open>n\<close>: then
  \<^verbatim>\<open>np.ones\<close> is asked for a negative length and raises. This happens for one sample
  with the default fraction of \<^verbatim>\<open>seisSim\<close>, for three samples with fraction 0.9, and
  for no sample at all with the default fraction of \<^verbatim>\<open>cosTaper\<close>.
\<close>

theorem cosTaper_raises_ValueError:
  "cosTaper 1 0.05 = Inl ValueError
   \<and> cosTaper 3 0.9 = Inl ValueError
   \<and> cosTaper 0 0.1 = Inl ValueError"
  by (simp add: cosTaper_def py_int_def np_ones_def and_then_def)

lemma py_int_half: "py_int (real n * 1 / 2) = int (n div 2)"
  unfolding py_int_def
  by (simp add: floor_divide_of_nat_eq [where ?'a = real and m = n and n = 2, simplified])

lemma ramps_mirror:
  assumes "2 \<le> (k::nat)"
  shows "rev (map (\<lambda>t. 0.5 * (1 + cos t)) (np_linspace 0 pi (int k)))
         = map (\<lambda>t. 0.5 * (1 + cos t)) (np_linspace pi (2 * pi) (int k))"
proof (rule nth_equalityI)
  show "length (rev (map (\<lambda>t. 0.5 * (1 + cos t)) (np_linspace 0 pi (int k))))
      = length (map (\<lambda>t. 0.5 * (1 + cos t)) (np_linspace pi (2 * pi) (int k)))"
    by (simp add: length_linspace)
next
  fix i assume "i < length (rev (map (\<lambda>t. 0.5 * (1 + cos t)) (np_linspace 0 pi (int k))))"
  then have i: "i < k" by (simp add: length_linspace)
  have k1: "real k - 1 \<noteq> 0" using assms by simp
  have "real (k - Suc i) * (pi / (real k - 1)) = pi - real i * (pi / (real k - 1))"
    using i k1 by (simp add: of_nat_diff field_simps)
  then have "cos (real (k - Suc i) * (pi / (real k - 1)))
      = cos (real i * (pi / (real k - 1)) + pi)"
    by (simp add: cos_diff cos_add)
  then show "rev (map (\<lambda>t. 0.5 * (1 + cos t)) (np_linspace 0 pi (int k))) ! i
      = map (\<lambda>t. 0.5 * (1 + cos t)) (np_linspace pi (2 * pi) (int k)) ! i"
    using i assms by (simp add: rev_nth length_linspace np_linspace_def Let_def of_nat_diff)
qed

lemma cosTaper_full:
  "cosTaper npts 1 =
     Inr (map (\<lambda>t. 0.5 * (1 + cos t)) (np_linspace pi (2 * pi) (int (npts div 2)))
          @ replicate (npts mod 2) 1
          @ map (\<lambda>t. 0.5 * (1 + cos t)) (np_linspace 0 pi (int (npts div 2))))"
proof -
  have "int npts - 2 * int (npts div 2) = int (npts mod 2)"
    by (simp add: of_nat_mod of_nat_div) presburger
  then show ?thesis
    using py_int_half [of npts]
    by (simp add: cosTaper_def np_ones_def and_then_def Let_def)
qed

text \<open>
  With fraction 1 and any number of points other than 2 and 3, the window is its own
  mirror image and its central sample (odd length) or two central samples (even
  length) are 1.
\<close>

lemma cosTaper_full_symmetric:
  assumes "npts \<noteq> 2" "npts \<noteq> 3"
  shows "\<exists>w. cosTaper npts 1 = Inr w \<and> length w = npts \<and> rev w = w
     \<and> (odd npts \<longrightarrow> w ! (npts div 2) = 1)
     \<and> (even npts \<and> 0 < npts \<longrightarrow> w ! (npts div 2 - 1) = 1 \<and> w ! (npts div 2) = 1)"
proof (cases "npts div 2 = 0")
  case True
  then have "npts = 0 \<or> npts = 1" by presburger
  then show ?thesis by (auto simp: cosTaper_full np_linspace_def)
next
  case False
  then have k: "2 \<le> npts div 2" using assms by presburger
  define k where "k = npts div 2"
  define A where "A = map (\<lambda>t. 0.5 * (1 + cos t)) (np_linspace pi (2 * pi) (int k))"
  define B where "B = map (\<lambda>t. 0.5 * (1 + cos t)) (np_linspace 0 pi (int k))"
  have w: "cosTaper npts 1 = Inr (A @ replicate (npts mod 2) 1 @ B)"
    by (simp add: cosTaper_full A_def B_def k_def)
  have AB: "rev B = A" unfolding A_def B_def using ramps_mirror k k_def by simp
  then have BA: "rev A = B" by (metis rev_rev_ident)
  have lA: "length A = k" and lB: "length B = k"
    by (simp_all add: A_def B_def length_linspace)
  have len: "length (A @ replicate (npts mod 2) 1 @ B) = npts"
    using lA lB by (simp add: k_def) presburger
  have sym: "rev (A @ replicate (npts mod 2) 1 @ B) = A @ replicate (npts mod 2) 1 @ B"
    by (simp add: AB BA)
  have k2: "2 \<le> k" using k k_def by simp
  have B0: "B ! 0 = 1" using k2 by (simp add: B_def np_linspace_def Let_def)
  have "A ! (k - 1) = rev B ! (k - 1)" using AB by simp
  also have "\<dots> = B ! 0" using k2 lB by (simp add: rev_nth)
  finally have Al: "A ! (k - 1) = 1" using B0 by simp
  have odd: "odd npts \<longrightarrow> (A @ replicate (npts mod 2) 1 @ B) ! (npts div 2) = 1"
    using lA by (auto simp: k_def [symmetric] nth_append odd_iff_mod_2_eq_one)
  have ev: "even npts \<and> 0 < npts \<longrightarrow>
       (A @ replicate (npts mod 2) 1 @ B) ! (npts div 2 - 1) = 1
     \<and> (A @ replicate (npts mod 2) 1 @ B) ! (npts div 2) = 1"
    using lA lB k2 Al B0 by (auto simp: k_def [symmetric] nth_append)
  show ?thesis using w len sym odd ev by simp
qed

text \<open>
  Claim C10: with fraction 1 the window is symmetric for every \<open>n\<close>, and its central
  samples are 1. For two and for three points each ramp has a single sample, and
  \<^verbatim>\<open>linspace\<close> with one sample returns its start: the rising ramp is \<open>[0]\<close> and the
  falling ramp is \<open>[1]\<close>. The windows are \<open>[0, 1]\<close> and \<open>[0, 1, 1]\<close>: not symmetric,
  and for two points the central sample \<open>w[0]\<close> is 0.
\<close>

theorem cosTaper_full_two_three_points:
  "cosTaper 2 1.0 = Inr [0, 1] \<and> cosTaper 3 1.0 = Inr [0, 1, 1]"
  by (simp add: cosTaper_def py_int_def np_ones_def and_then_def np_linspace_def)

subsection \<open>Water-level inversion\<close>

lemma np_max_Max: "xs \<noteq> [] \<Longrightarrow> np_max xs = Inr (Max (set xs))"
proof (cases xs)
  case Nil
  assume "xs \<noteq> []"
  with Nil show ?thesis by simp
next
  case (Cons a list)
  then show ?thesis using Max.set_eq_fold [of a list] by simp
qed

lemma waterlevel_eq:
  "spec \<noteq> [] \<Longrightarrow>
   waterlevel spec wlev = Inr (Max (set (map cmod spec)) * 10 powr (- wlev / 20))"
  by (simp add: waterlevel_def np_max_Max and_then_def)

lemma waterlevel_empty: "waterlevel [] wlev = Inl ValueError"
  by (simp add: waterlevel_def and_then_def)

lemma specInv_empty: "specInv [] wlev = Inl ValueError"
  by (simp add: specInv_def waterlevel_empty and_then_def)

lemma specInv_bins:
  assumes "spec \<noteq> []"
  shows "specInv spec wlev =
     Inr (map (inverted_bin (Max (set (map cmod spec)) * 10 powr (- wlev / 20))) spec,
          length (filter (below_swamp (Max (set (map cmod spec)) * 10 powr (- wlev / 20))) spec))"
proof -
  have "map (\<lambda>(l, z). if l = 0 then Complex 0 0 else z)
          (zip (map cmod (map f spec)) (map g (map f spec)))
       = map (\<lambda>z. if cmod (f z) = 0 then Complex 0 0 else g (f z)) spec"
    for f g :: "complex \<Rightarrow> complex"
    by (induction spec) simp_all
  then show ?thesis using assms
    by (simp add: specInv_def waterlevel_eq and_then_def Let_def inverted_bin_def)
qed

lemma inverted_bin_zero: "cmod z = 0 \<Longrightarrow> inverted_bin swamp z = 0"
  by (simp add: inverted_bin_def below_swamp_def Complex_eq_0)

lemma inverted_bin_bound:
  assumes "inverted_bin swamp z \<noteq> 0" "cmod z \<le> M" "swamp = M * 10 powr e"
  shows "0 < swamp \<and> cmod (inverted_bin swamp z) \<le> 1 / swamp"
proof -
  have z: "z \<noteq> 0" using assms(1) inverted_bin_zero [of z swamp] by auto
  then have "0 < cmod z" by simp
  then have "0 < M" using assms(2) by linarith
  then have sw: "0 < swamp" using assms(3) by simp
  show ?thesis
  proof (cases "below_swamp swamp z")
    case True
    define z1 where "z1 = z * complex_of_real (swamp / cmod z)"
    have n: "cmod z1 = swamp"
      using z sw by (simp add: z1_def norm_mult norm_divide)
    have "inverted_bin swamp z =
        (if cmod z1 = 0 then Complex 0 0 else if cmod z1 > 0 then 1 / z1 else z1)"
      unfolding inverted_bin_def z1_def Let_def using True by simp
    then have "cmod (inverted_bin swamp z) = 1 / swamp"
      using n sw by (simp add: norm_divide)
    then show ?thesis using sw by simp
  next
    case False
    then have ge: "swamp \<le> cmod z" using z by (simp add: below_swamp_def)
    have "cmod (inverted_bin swamp z) = 1 / cmod z"
      using False z by (simp add: inverted_bin_def norm_divide)
    then show ?thesis using sw ge by (simp add: frac_le)
  qed
qed

lemma Max_ge_nth: "i < length spec \<Longrightarrow> cmod (spec ! i) \<le> Max (set (map cmod spec))"
  by (rule Max_ge) auto

text \<open>
  Claim C2, as stated: every output bin of nonzero magnitude has
  \<open>|output| \<ge> 1 / (max |input| \<cdot> 10 ^ (- water_level_db / 20))\<close>. For the spectrum
  \<open>[1, 2]\<close> and a water level of 20 dB the threshold is 0.2, no bin is clamped, the
  output is \<open>[1, 0.5]\<close>, and the claimed bound is 5: the first bin, of magnitude 1,
  is below it.
\<close>

theorem specInv_lower_bound_counterexample:
  "specInv [Complex 1 0, Complex 2 0] 20 = Inr ([Complex 1 0, Complex (1 / 2) 0], 0)
   \<and> cmod (Complex 1 0) \<noteq> 0
   \<and> \<not> (1 / (Max (set (map cmod [Complex 1 0, Complex 2 0])) * 10 powr (- 20 / 20))
          \<le> cmod (Complex 1 0))"
  by (simp add: specInv_bins inverted_bin_def below_swamp_def powr_neg_one complex_eq_iff
      cmod_def Re_divide Im_divide power2_eq_square)

text \<open>
  Claim C2, amended: for every spectrum and every water level, after the
  clamp-then-invert sequence of \<^verbatim>\<open>specInv\<close> every nonzero output bin satisfies
  \<open>|output| \<le> 1 / (max |input| \<cdot> 10 ^ (- water_level_db / 20))\<close>: the clamp bounds the
  inverted spectrum from above, not from below. (The inversion returns for every
  spectrum that has a bin.)
\<close>

theorem specInv_output_bound:
  "(spec \<noteq> [] \<longrightarrow> (\<exists>out found. specInv spec wlev = Inr (out, found)))
   \<and> (\<forall>out found. specInv spec wlev = Inr (out, found) \<longrightarrow>
         length out = length spec
         \<and> (\<forall>i<length out. out ! i \<noteq> 0 \<longrightarrow>
               cmod (out ! i) \<le> 1 / (Max (set (map cmod spec)) * 10 powr (- wlev / 20))))"
proof (cases "spec = []")
  case True
  then show ?thesis by (simp add: specInv_empty)
next
  case False
  then show ?thesis
    using inverted_bin_bound [OF _ Max_ge_nth refl]
    by (simp add: specInv_bins)
qed

theorem specInv_output_bound_witness:
  "specInv [Complex 1 0, Complex 2 0] 20 = Inr ([Complex 1 0, Complex (1 / 2) 0], 0)
   \<and> [Complex 1 0, Complex (1 / 2) 0] ! 1 \<noteq> 0
   \<and> cmod ([Complex 1 0, Complex (1 / 2) 0] ! 1)
      \<le> 1 / (Max (set (map cmod [Complex 1 0, Complex 2 0])) * 10 powr (- 20 / 20))"
proof -
  have r: "specInv [Complex 1 0, Complex 2 0] 20 = Inr ([Complex 1 0, Complex (1 / 2) 0], 0)"
    by (simp add: specInv_bins inverted_bin_def below_swamp_def powr_neg_one complex_eq_iff
      cmod_def Re_divide Im_divide power2_eq_square)
  have n: "[Complex 1 0, Complex (1 / 2) 0] ! 1 \<noteq> 0" by (simp add: Complex_eq_0)
  from specInv_output_bound [of "[Complex 1 0, Complex 2 0]" 20] r
  have b: "\<forall>i<length [Complex 1 0, Complex (1 / 2) 0]. [Complex 1 0, Complex (1 / 2) 0] ! i \<noteq> 0 \<longrightarrow>
               cmod ([Complex 1 0, Complex (1 / 2) 0] ! i)
               \<le> 1 / (Max (set (map cmod [Complex 1 0, Complex 2 0])) * 10 powr (- 20 / 20))"
    by blast
  have "1 < length [Complex 1 0, Complex (1 / 2) 0]" by simp
  with b n have "cmod ([Complex 1 0, Complex (1 / 2) 0] ! 1)
      \<le> 1 / (Max (set (map cmod [Complex 1 0, Complex 2 0])) * 10 powr (- 20 / 20))"
    by blast
  with r n show ?thesis by blast
qed

text \<open>
  Claim C6: every input bin of magnitude zero is mapped to \<open>0 + 0j\<close>, and the output has
  the length of the input. A spectrum, as \<^verbatim>\<open>numpy.fft.rfft\<close> returns it, has at least
  one bin; for such a spectrum the inversion returns. (On an array without any bin
  \<^verbatim>\<open>waterlevel\<close> raises, and there is no output.)
\<close>

theorem specInv_zero_bins:
  "(spec \<noteq> [] \<longrightarrow> (\<exists>out found. specInv spec wlev = Inr (out, found)))
   \<and> (\<forall>out found. specInv spec wlev = Inr (out, found) \<longrightarrow>
         length out = length spec
         \<and> (\<forall>i<length spec. cmod (spec ! i) = 0 \<longrightarrow> out ! i = Complex 0 0))"
proof (cases "spec = []")
  case True
  then show ?thesis by (simp add: specInv_empty)
next
  case False
  then show ?thesis by (simp add: specInv_bins inverted_bin_zero Complex_eq_0)
qed

theorem specInv_zero_bins_witness:
  "specInv [Complex 0 0, Complex 3 4] 0 = Inr ([Complex 0 0, 1 / Complex 3 4], 0)
   \<and> length [Complex 0 0, 1 / Complex 3 4] = length [Complex 0 0, Complex 3 4]
   \<and> cmod ([Complex 0 0, Complex 3 4] ! 0) = 0
   \<and> [Complex 0 0, 1 / Complex 3 4] ! 0 = Complex 0 0"
proof -
  have r: "specInv [Complex 0 0, Complex 3 4] 0 = Inr ([Complex 0 0, 1 / Complex 3 4], 0)"
    by (simp add: specInv_bins inverted_bin_def below_swamp_def cmod_def Complex_eq_0)
  show ?thesis
    using r specInv_zero_bins [of "[Complex 0 0, Complex 3 4]" 0] by (simp add: Complex_eq_0)
qed

subsection \<open>Frequency response of poles and zeros\<close>

lemma horner_shift:
  "fold (\<lambda>c y. y * x + c) p y = y * x ^ length p + fold (\<lambda>c y. y * x + c) p (0::complex)"
proof (induction p arbitrary: y)
  case Nil
  show ?case by simp
next
  case (Cons c p)
  have "fold (\<lambda>c y. y * x + c) (c # p) y
      = (y * x + c) * x ^ length p + fold (\<lambda>c y. y * x + c) p 0"
    using Cons [of "y * x + c"] by simp
  also have "\<dots> = y * x ^ length (c # p) + (c * x ^ length p + fold (\<lambda>c y. y * x + c) p 0)"
    by (simp add: algebra_simps)
  also have "c * x ^ length p + fold (\<lambda>c y. y * x + c) p 0 = fold (\<lambda>c y. y * x + c) (c # p) 0"
    using Cons [of c] by simp
  finally show ?case .
qed

lemma polyval_Cons: "np_polyval (c # p) x = c * x ^ length p + np_polyval p x"
  unfolding np_polyval_def using horner_shift [of x p c] by simp

lemma polyval_carry:
  "np_polyval (map (\<lambda>(u, v). u + v) (zip (a @ [0]) (carry # map (\<lambda>u. - r * u) a))) x
   = carry * x ^ length a + np_polyval a x * (x - r)"
proof (induction a arbitrary: carry)
  case Nil
  show ?case by (simp add: np_polyval_def)
next
  case (Cons a0 a)
  show ?case
    using Cons [of "- r * a0"] by (simp add: polyval_Cons algebra_simps)
qed

lemma polyval_convolve_root: "np_polyval (convolve_root a r) x = np_polyval a x * (x - r)"
  by (simp add: convolve_root_def polyval_carry [of a 0 r x, simplified])

lemma polyval_fold_roots:
  "np_polyval (fold (\<lambda>r a. convolve_root a r) rs a) x
   = np_polyval a x * prod_list (map (\<lambda>r. x - r) rs)"
  by (induction rs arbitrary: a) (simp_all add: polyval_convolve_root mult.assoc)

lemma polyval_poly: "np_polyval (np_poly rs) x = prod_list (map (\<lambda>r. x - r) rs)"
  unfolding np_poly_def by (simp add: polyval_fold_roots) (simp add: np_polyval_def)

lemma horner_scale:
  "fold (\<lambda>c y. y * x + c) (map (\<lambda>c. k * c) p) (k * y)
   = k * fold (\<lambda>c y. y * x + c) p (y::complex)"
proof (induction p arbitrary: y)
  case Nil
  show ?case by simp
next
  case (Cons c p)
  have "k * y * x + k * c = k * (y * x + c)" by (simp add: algebra_simps)
  then show ?case using Cons [of "y * x + c"] by simp
qed

lemma polyval_scale: "np_polyval (map (\<lambda>c. k * c) p) x = k * np_polyval p x"
  unfolding np_polyval_def using horner_scale [of x k p 0] by simp

lemma freqs_zpk:
  "freqs (fst (zpk2tf z p k)) (snd (zpk2tf z p k)) ws
   = (ws, map (\<lambda>w. analog_response z p k (\<i> * complex_of_real w)) ws)"
  by (simp add: freqs_def zpk2tf_def polyval_scale polyval_poly analog_response_def)

text \<open>
  Claim C7: for all poles, zeros and gain, every sample interval (other than zero, where
  there is no Nyquist frequency and the source raises ZeroDivisionError) and every
  \<open>nfft\<close>, \<^verbatim>\<open>pazToFreqResp\<close> with the default convention returns \<open>nfft div 2 + 1\<close>
  frequencies, the \<open>i\<close>-th being \<open>i\<close> times the Nyquist frequency \<open>1 / (2 t_samp)\<close>
  over \<open>nfft div 2\<close>, and at each of them the complex conjugate of the response
  \<open>H(j 2 \<pi> f)\<close> of the rational function of the zeros, poles and gain.
\<close>

theorem pazToFreqResp_conj_analog:
  assumes "t_samp \<noteq> 0"
  shows "\<exists>h f. pazToFreqResp poles zeros scale_fac t_samp nfft True = Inr (h, f)
     \<and> length f = nfft div 2 + 1 \<and> length h = nfft div 2 + 1
     \<and> (\<forall>i \<le> nfft div 2.
           f ! i = (if nfft div 2 = 0 then 0
                    else real i * (1 / (2 * t_samp)) / real (nfft div 2))
         \<and> h ! i = cnj (analog_response zeros poles scale_fac
                          (\<i> * complex_of_real (2 * pi * f ! i))))"
proof -
  define f where "f = np_linspace 0 (1 / (t_samp * 2)) (int (nfft div 2) + 1)"
  have lf: "length f = nfft div 2 + 1" by (simp add: f_def length_linspace nat_add_distrib)
  have r: "pazToFreqResp poles zeros scale_fac t_samp nfft True
     = Inr (map cnj (map (\<lambda>w. analog_response zeros poles scale_fac (\<i> * complex_of_real w))
                      (map (\<lambda>x. x * 2 * pi) f)), f)"
    using assms freqs_zpk [of zeros poles scale_fac "map (\<lambda>x. x * 2 * pi) f"]
    by (simp add: pazToFreqResp_def py_div_def and_then_def Let_def f_def split_beta)
  have fi: "f ! i = (if nfft div 2 = 0 then 0
                     else real i * (1 / (2 * t_samp)) / real (nfft div 2))"
    if "i \<le> nfft div 2" for i
  proof (cases "nfft div 2 = 0")
    case True
    then show ?thesis using that by (simp add: f_def np_linspace_def)
  next
    case False
    then have "2 \<le> int (nfft div 2) + 1" "i < nat (int (nfft div 2) + 1)"
      using that by simp_all
    then show ?thesis using False by (simp add: f_def linspace_nth mult.commute)
  qed
  show ?thesis using r lf fi by (simp add: mult.commute mult.left_commute)
qed

theorem pazToFreqResp_conj_analog_witness:
  "(0.01::real) \<noteq> 0
   \<and> (\<exists>h f. pazToFreqResp [Complex (-4.44) 4.44, Complex (-4.44) (-4.44)] [0, 0] 0.4 0.01 4 True
              = Inr (h, f)
     \<and> length f = 3 \<and> length h = 3
     \<and> f ! 2 = 50
     \<and> h ! 2 = cnj (analog_response [0, 0] [Complex (-4.44) 4.44, Complex (-4.44) (-4.44)] 0.4
                      (\<i> * complex_of_real (2 * pi * f ! 2))))"
proof -
  obtain h f where hf:
    "pazToFreqResp [Complex (-4.44) 4.44, Complex (-4.44) (-4.44)] [0, 0] 0.4 0.01 4 True
      = Inr (h, f)"
    "length f = 4 div 2 + 1" "length h = 4 div 2 + 1"
    "\<forall>i \<le> 4 div 2.
       f ! i = (if (4::nat) div 2 = 0 then 0 else real i * (1 / (2 * 0.01)) / real (4 div 2))
       \<and> h ! i = cnj (analog_response [0, 0] [Complex (-4.44) 4.44, Complex (-4.44) (-4.44)]
                       0.4 (\<i> * complex_of_real (2 * pi * f ! i)))"
    using pazToFreqResp_conj_analog
      [of "0.01" "[Complex (-4.44) 4.44, Complex (-4.44) (-4.44)]" "[0, 0]" "0.4" 4]
    by auto
  from hf(4) have "f ! 2 = 50
      \<and> h ! 2 = cnj (analog_response [0, 0] [Complex (-4.44) 4.44, Complex (-4.44) (-4.44)]
                       0.4 (\<i> * complex_of_real (2 * pi * f ! 2)))"
    by simp
  with hf(1,2,3) show ?thesis by simp
qed

subsection \<open>The RESP evaluator and its temporary file\<close>

lemma splitlines_from_plain:
  "CHR 0x0D \<notin> set cs \<Longrightarrow> CHR 0x0A \<notin> set cs \<Longrightarrow>
   splitlines_from cur cs = (if cur @ cs = [] then [] else [cur @ cs])"
  by (induction cs arbitrary: cur) auto

text \<open>
  Once the input file has been read, every exception leaves the temporary file behind;
  a call that returns has removed it.
\<close>

lemma evalresp_failure_leaves_tempfile:
  assumes "files w filename = Some contents"
    and "evalresp lib t_samp nfft filename date station channel network loc units debug w
         = (Inl e, w')"
  shows "files w' (TempFile (n_tempfiles w))
         = Some (join_lines (os_linesep lib) (splitlines contents))"
  using assms
  by (auto simp: evalresp_def Let_def split: sum.splits option.splits prod.splits if_splits)

lemma evalresp_success_removes_tempfile:
  assumes "evalresp lib t_samp nfft filename date station channel network loc units debug w
           = (Inr x, w')"
  shows "files w' (TempFile (n_tempfiles w)) = None"
  using assms
  by (auto simp: evalresp_def Let_def split: sum.splits option.splits prod.splits if_splits)

text \<open>
  Claim C9: the temporary file is removed on every exit path, also when the external
  call fails. When evresp finds no response and returns the NULL pointer, the
  dereference \<^verbatim>\<open>res[0]\<close> raises before \<^verbatim>\<open>os.remove\<close> is reached: the call ends with
  the ValueError, and the temporary file, which did not exist before, is still there.
\<close>

theorem evalresp_leaves_tempfile:
  "fst (evalresp documented_libraries 0.01 16 (Path ''RESP.BW.FURT..EHZ'') (2008, 1)
          ''*'' ''*'' ''*'' ''*'' ''VEL'' False resp_world) = Inl ValueError
   \<and> files resp_world (TempFile 0) = None
   \<and> files (snd (evalresp documented_libraries 0.01 16 (Path ''RESP.BW.FURT..EHZ'') (2008, 1)
          ''*'' ''*'' ''*'' ''*'' ''VEL'' False resp_world)) (TempFile 0)
      = Some ''B050F03     Station:     FURT''"
  by (simp add: evalresp_def resp_world_def documented_libraries_def Let_def py_div_def
      np_arange_def splitlines_def splitlines_from_plain)

subsection \<open>The simulation engine: validation\<close>

text \<open>
  Claim C5: whenever none of \<^verbatim>\<open>paz_remove\<close>, \<^verbatim>\<open>paz_simulate\<close> and \<^verbatim>\<open>seedresp\<close>
  is supplied, whatever the trace, the libraries and the other arguments,
  \<^verbatim>\<open>seisSim\<close> raises the TypeError of its first statement; no trace is returned, and
  the state is the one before the call: no array has been made, nothing been computed.
\<close>

theorem seisSim_no_descriptor:
  assumes "paz_remove a = None" "paz_simulate a = None" "seedresp a = None"
  shows "seisSim lib a w =
     (Inl (TypeError ''Neither inverse nor forward instrument simulation specified.''), w)"
  using assms by (simp add: seisSim_def truthy_def)

theorem seisSim_no_descriptor_witness:
  "paz_remove bare_call = None \<and> paz_simulate bare_call = None \<and> seedresp bare_call = None
   \<and> seisSim documented_libraries bare_call sim_world =
     (Inl (TypeError ''Neither inverse nor forward instrument simulation specified.''),
      sim_world)"
proof -
  have h: "paz_remove bare_call = None" "paz_simulate bare_call = None"
    "seedresp bare_call = None"
    by (simp_all add: bare_call_def sim_call_def)
  show ?thesis
    using h seisSim_no_descriptor [OF h, of documented_libraries sim_world] by simp
qed

subsection \<open>The simulation engine: what a call changes\<close>

lemma kept_refl: "kept w w"
  by (simp add: kept_def)

lemma kept_new_farray:
  "kept w0 w \<Longrightarrow> new_farray xs w = (d, w') \<Longrightarrow>
   kept w0 w' \<and> n_farrays w0 \<le> d \<and> d < n_farrays w'"
  by (auto simp: kept_def new_farray_def)

lemma kept_new_carray:
  "kept w0 w \<Longrightarrow> new_carray xs w = (d, w') \<Longrightarrow>
   kept w0 w' \<and> n_carrays w0 \<le> d \<and> d < n_carrays w'"
  by (auto simp: kept_def new_carray_def)

lemma kept_set_farray:
  "kept w0 w \<Longrightarrow> n_farrays w0 \<le> d \<Longrightarrow> kept w0 (set_farray d xs w)"
  by (auto simp: kept_def set_farray_def)

lemma kept_set_carray:
  "kept w0 w \<Longrightarrow> n_carrays w0 \<le> d \<Longrightarrow> kept w0 (set_carray d xs w)"
  by (auto simp: kept_def set_carray_def)

lemma n_farrays_set_farray: "n_farrays (set_farray d xs w) = n_farrays w"
  by (simp add: set_farray_def)

lemma seqE:
  assumes "seq m f w = (r, w')"
  obtains (raised) e where "m w = (Inl e, w')" "r = Inl e"
    | (returned) x w1 where "m w = (Inr x, w1)" "f x w1 = (r, w')"
  using assms by (auto simp: seq_def split: prod.splits sum.splits)

lemma no_effectE:
  assumes "no_effect x w = (r, w')"
  shows "w' = w \<and> r = x"
  using assms by (auto simp: no_effect_def)

lemma stage_taper_kept:
  assumes "kept w0 w" "stage_taper a w = (r, w')"
  shows "kept w0 w' \<and> (\<forall>d. r = Inr d \<longrightarrow> n_farrays w0 \<le> d \<and> d < n_farrays w')"
proof -
  obtain d w1 where n: "new_farray (farrays w (data a)) w = (d, w1)"
    by (cases "new_farray (farrays w (data a)) w")
  have k1: "kept w0 w1" "n_farrays w0 \<le> d" "d < n_farrays w1"
    using kept_new_farray [OF assms(1) n] by auto
  define w2 where
    "w2 = (if zero_mean a
           then set_farray d (map (\<lambda>x. x - np_mean (farrays w1 d)) (farrays w1 d)) w1
           else w1)"
  have k2: "kept w0 w2" "d < n_farrays w2"
    using k1 by (auto simp: w2_def kept_set_farray n_farrays_set_farray)
  have s: "stage_taper a w =
      (if taper a
       then seq (no_effect (cosTaper (length (farrays w (data a))) (taper_fraction a))) (\<lambda>win.
            seq (no_effect (imul (farrays w2 d) win)) (\<lambda>xs w.
            (Inr d, set_farray d xs w))) w2
       else (Inr d, w2))"
    by (simp add: stage_taper_def n w2_def Let_def)
  show ?thesis
  proof (cases "taper a")
    case False
    then show ?thesis using s assms(2) k1 k2 by auto
  next
    case True
    then have "seq (no_effect (cosTaper (length (farrays w (data a))) (taper_fraction a)))
        (\<lambda>win. seq (no_effect (imul (farrays w2 d) win)) (\<lambda>xs w.
           (Inr d, set_farray d xs w))) w2 = (r, w')"
      using s assms(2) by simp
    then show ?thesis using k1 k2
      by (auto simp: kept_set_farray n_farrays_set_farray elim!: seqE dest!: no_effectE)
  qed
qed

lemma stage_rfft_kept:
  assumes "kept w0 w" "stage_rfft lib d nfft w = (r, w')"
  shows "kept w0 w' \<and> (\<forall>sp. r = Inr sp \<longrightarrow> n_carrays w0 \<le> sp)"
  using assms
  by (auto simp: stage_rfft_def split: prod.splits elim!: seqE dest: kept_new_carray)

lemma stage_paz_remove_kept:
  assumes "kept w0 w" "stage_paz_remove a delta nfft w = (r, w')"
  shows "kept w0 w' \<and> (\<forall>fr f. r = Inr (Some (fr, f)) \<longrightarrow> n_carrays w0 \<le> fr)"
  using assms
  by (auto simp: stage_paz_remove_def split: prod.splits option.splits
      elim!: seqE dest!: no_effectE dest: kept_new_carray)

text \<open>The RESP evaluator touches files only.\<close>

lemma evalresp_heap:
  assumes "evalresp lib t_samp nfft filename date station channel network loc units debug w
           = (r, w')"
  shows "farrays w' = farrays w \<and> n_farrays w' = n_farrays w \<and> carrays w' = carrays w
     \<and> n_carrays w' = n_carrays w \<and> dicts w' = dicts w"
  using assms
  by (auto simp: evalresp_def Let_def split: sum.splits option.splits prod.splits if_splits)

lemma stage_seedresp_kept:
  assumes "kept w0 w" "stage_seedresp lib a delta nfft prev w = (r, w')"
    and "\<forall>fr f. prev = Some (fr, f) \<longrightarrow> n_carrays w0 \<le> fr"
  shows "kept w0 w' \<and> (\<forall>fr f. r = Inr (Some (fr, f)) \<longrightarrow> n_carrays w0 \<le> fr)"
  using assms
  by (auto simp: stage_seedresp_def kept_def new_carray_def split: prod.splits option.splits
      elim!: seqE dest!: no_effectE evalresp_heap)

lemma stage_deconvolve_kept:
  assumes "kept w0 w" "stage_deconvolve a sp fr w = (r, w')"
    and "n_carrays w0 \<le> sp" "\<forall>x f. fr = Some (x, f) \<longrightarrow> n_carrays w0 \<le> x"
  shows "kept w0 w'"
  using assms
  by (auto simp: stage_deconvolve_def kept_set_carray Let_def split: prod.splits option.splits
      elim!: seqE dest!: no_effectE)

lemma stage_simulate_kept:
  assumes "kept w0 w" "stage_simulate a delta nfft sp w = (r, w')"
    and "n_carrays w0 \<le> sp"
  shows "kept w0 w'"
  using assms
  by (auto simp: stage_simulate_def kept_set_carray split: prod.splits option.splits
      elim!: seqE dest!: no_effectE)

lemma stage_back_kept:
  assumes "kept w0 w" "stage_back lib a ndat sp w = (r, w')"
  shows "kept w0 w' \<and> (\<forall>d. r = Inr d \<longrightarrow> n_farrays w0 \<le> d \<and> d < n_farrays w')"
  using assms
  by (auto simp: stage_back_def kept_def new_farray_def set_farray_def Let_def
      split: prod.splits option.splits if_splits elim!: seqE dest!: no_effectE)

lemma spares_no_effect: "spares w0 (no_effect r) (\<lambda>x. True)"
  by (simp add: spares_def no_effect_def)

lemma spares_seq:
  assumes "spares w0 m Q" and "\<And>x. Q x \<Longrightarrow> spares w0 (f x) R"
  shows "spares w0 (seq m f) R"
  unfolding spares_def
proof (intro allI impI)
  fix w r w'
  assume k: "kept w0 w" and s: "seq m f w = (r, w')"
  from s show "kept w0 w' \<and> (\<forall>x. r = Inr x \<longrightarrow> R x)"
  proof (cases rule: seqE)
    case (raised e)
    then show ?thesis using assms(1) k by (auto simp: spares_def)
  next
    case (returned x w1)
    from assms(1) k returned(1) have "kept w0 w1" "Q x" by (auto simp: spares_def)
    with assms(2) [of x] returned(2) show ?thesis by (auto simp: spares_def)
  qed
qed

lemma spares_stage_taper: "spares w0 (stage_taper a) (\<lambda>d. n_farrays w0 \<le> d)"
  unfolding spares_def using stage_taper_kept by blast

lemma spares_stage_rfft: "spares w0 (stage_rfft lib d nfft) (\<lambda>sp. n_carrays w0 \<le> sp)"
  unfolding spares_def using stage_rfft_kept by blast

lemma spares_stage_paz_remove:
  "spares w0 (stage_paz_remove a delta nfft)
     (\<lambda>fr. \<forall>x f. fr = Some (x, f) \<longrightarrow> n_carrays w0 \<le> x)"
  unfolding spares_def using stage_paz_remove_kept by blast

lemma spares_stage_seedresp:
  "\<forall>x f. prev = Some (x, f) \<longrightarrow> n_carrays w0 \<le> x \<Longrightarrow>
   spares w0 (stage_seedresp lib a delta nfft prev)
     (\<lambda>fr. \<forall>x f. fr = Some (x, f) \<longrightarrow> n_carrays w0 \<le> x)"
  unfolding spares_def using stage_seedresp_kept by blast

lemma spares_stage_deconvolve:
  "n_carrays w0 \<le> sp \<Longrightarrow> \<forall>x f. fr = Some (x, f) \<longrightarrow> n_carrays w0 \<le> x \<Longrightarrow>
   spares w0 (stage_deconvolve a sp fr) (\<lambda>u. True)"
  unfolding spares_def using stage_deconvolve_kept by blast

lemma spares_stage_simulate:
  "n_carrays w0 \<le> sp \<Longrightarrow> spares w0 (stage_simulate a delta nfft sp) (\<lambda>u. True)"
  unfolding spares_def using stage_simulate_kept by blast

lemma spares_stage_back:
  "spares w0 (stage_back lib a ndat sp) (\<lambda>d. n_farrays w0 \<le> d)"
  unfolding spares_def using stage_back_kept by blast

lemma seisSim_kept:
  assumes "seisSim lib a w = (r, w')"
  shows "kept w w' \<and> (\<forall>d. r = Inr d \<longrightarrow> n_farrays w \<le> d)"
proof (cases "\<not> truthy w (paz_remove a) \<and> \<not> truthy w (paz_simulate a)
              \<and> \<not> truthy w (seedresp a)")
  case True
  then show ?thesis using assms by (auto simp: seisSim_def kept_refl)
next
  case False
  have "spares w
        (seq (no_effect (check_descriptors w [paz_remove a, paz_simulate a])) (\<lambda>u.
         seq (no_effect (py_div 1.0 (samp_rate a))) (\<lambda>delta.
         seq (stage_taper a) (\<lambda>d.
         seq (no_effect (choose_nfft lib a (length (farrays w (data a))))) (\<lambda>nfft.
         seq (stage_rfft lib d nfft) (\<lambda>sp.
         seq (stage_paz_remove a delta nfft) (\<lambda>freq_response.
         seq (stage_seedresp lib a delta nfft freq_response) (\<lambda>freq_response.
         seq (stage_deconvolve a sp freq_response) (\<lambda>u.
         seq (stage_simulate a delta nfft sp) (\<lambda>u.
         stage_back lib a (length (farrays w (data a))) sp))))))))))
        (\<lambda>d. n_farrays w \<le> d)"
    apply (rule spares_seq [where Q = "\<lambda>x. True"], rule spares_no_effect)
    apply (rule spares_seq [where Q = "\<lambda>x. True"], rule spares_no_effect)
    apply (rule spares_seq [where Q = "\<lambda>d. n_farrays w \<le> d"], rule spares_stage_taper)
    apply (rule spares_seq [where Q = "\<lambda>x. True"], rule spares_no_effect)
    apply (rule spares_seq [where Q = "\<lambda>sp. n_carrays w \<le> sp"], rule spares_stage_rfft)
    apply (rule spares_seq [where Q = "\<lambda>fr. \<forall>x f. fr = Some (x, f) \<longrightarrow> n_carrays w \<le> x"],
        rule spares_stage_paz_remove)
    apply (rule spares_seq [where Q = "\<lambda>fr. \<forall>x f. fr = Some (x, f) \<longrightarrow> n_carrays w \<le> x"],
        rule spares_stage_seedresp, assumption)
    apply (rule spares_seq [where Q = "\<lambda>x. True"], rule spares_stage_deconvolve, assumption,
        assumption)
    apply (rule spares_seq [where Q = "\<lambda>x. True"], rule spares_stage_simulate, assumption)
    apply (rule spares_stage_back)
    done
  then show ?thesis
    using assms False kept_refl [of w] unfolding spares_def seisSim_def Let_def
    by (auto simp del: check_descriptors.simps)
qed

text \<open>The example call returns, with the array 2 that it has made.\<close>

lemma rfft_documented_returns:
  "1 \<le> n \<Longrightarrow> \<exists>sp. rfft_documented xs n = Inr sp \<and> length sp = n div 2 + 1"
  by (simp add: rfft_documented_def Let_def)

lemma irfft_documented_returns:
  "2 \<le> length a \<Longrightarrow> \<exists>x. irfft_documented a = Inr x \<and> length x = 2 * (length a - 1)"
  by (simp add: irfft_documented_def Let_def)

lemma detrend_documented_returns:
  "xs \<noteq> [] \<Longrightarrow> \<exists>y. detrend_documented xs = Inr y \<and> length y = length xs"
  by (simp add: detrend_documented_def Let_def)

lemma pazToFreqResp_returns:
  "t_samp \<noteq> 0 \<Longrightarrow>
   \<exists>h f. pazToFreqResp ps zs g t_samp nfft pitsa = Inr (h, f) \<and> length h = nfft div 2 + 1"
  by (simp add: pazToFreqResp_def py_div_def and_then_def Let_def freqs_def zpk2tf_def
      length_linspace nat_add_distrib split_beta)

lemma specInv_returns:
  "spec \<noteq> [] \<Longrightarrow>
   \<exists>out found. specInv spec wlev = Inr (out, found) \<and> length out = length spec"
  by (cases spec) (simp_all add: specInv_def waterlevel_def and_then_def Let_def)

lemma stage_taper_example:
  "stage_taper sim_call sim_world
   = (Inr 1, sim_world\<lparr>farrays := (farrays sim_world)(1 := [0, 1 / 2]), n_farrays := 2\<rparr>)"
  by (simp add: stage_taper_def sim_call_def sim_world_def new_farray_def set_farray_def
      np_mean_def seq_def no_effect_def cosTaper_def py_int_def np_ones_def and_then_def
      np_linspace_def imul_def Let_def)

lemma paz_example_response:
  "\<exists>h f. paz_response paz_example (1 / 200) 4 = Inr (h, f) \<and> length h = 3"
  using pazToFreqResp_returns [of "1 / 200" _ _ _ 4 True]
  by (simp add: paz_response_def paz_example_def getitem_clist_def getitem_float_def
      and_then_def)

lemma seisSim_example_returns:
  "fst (seisSim documented_libraries sim_call sim_world) = Inr 2"
proof -
  define w1 where
    "w1 = sim_world\<lparr>farrays := (farrays sim_world)(1 := [0, 1 / 2]), n_farrays := 2\<rparr>"
  obtain sp where sp: "rfft_documented [0, 1 / 2] 4 = Inr sp" "length sp = 3"
    using rfft_documented_returns [of 4 "[0, 1 / 2]"] by auto
  define w2 where "w2 = w1\<lparr>carrays := (carrays w1)(0 := sp), n_carrays := 1\<rparr>"
  have s2: "stage_rfft documented_libraries 1 4 w1 = (Inr 0, w2)"
    by (simp add: stage_rfft_def seq_def documented_libraries_def w1_def w2_def sp
        new_carray_def sim_world_def)
  obtain h f where h: "paz_response paz_example (1 / 200) 4 = Inr (h, f)" "length h = 3"
    using paz_example_response by auto
  define w3 where "w3 = w2\<lparr>carrays := (carrays w2)(1 := h), n_carrays := 2\<rparr>"
  have d2: "descriptor w2 (Some 0) = Some paz_example"
    by (simp add: descriptor_def w2_def w1_def sim_world_def paz_example_def)
  have s3: "stage_paz_remove sim_call (1 / 200) 4 w2 = (Inr (Some (1, f)), w3)"
    using d2
    by (simp add: stage_paz_remove_def sim_call_def seq_def no_effect_def h new_carray_def
        w3_def w2_def)
  have s4: "stage_seedresp documented_libraries sim_call (1 / 200) 4 (Some (1, f)) w3
      = (Inr (Some (1, f)), w3)"
    by (simp add: stage_seedresp_def sim_call_def descriptor_def)
  have "h \<noteq> []" using h(2) by auto
  then obtain inv found where inv: "specInv h 600 = Inr (inv, found)" "length inv = 3"
    using specInv_returns [of h 600] h(2) by auto
  define w5 where
    "w5 = set_carray 0 (map (\<lambda>(x, y). x * y) (zip sp (map cnj inv))) (set_carray 1 inv w3)"
  have s5: "stage_deconvolve sim_call 0 (Some (1, f)) w3 = (Inr (), w5)"
    by (simp add: stage_deconvolve_def sim_call_def seq_def no_effect_def w3_def w2_def inv
        set_carray_def imul_def sp w5_def)
  have s6: "stage_simulate sim_call (1 / 200) 4 0 w5 = (Inr (), w5)"
    by (simp add: stage_simulate_def sim_call_def descriptor_def)
  have c5: "carrays w5 0 = map (\<lambda>(x, y). x * y) (zip sp (map cnj inv))"
    by (simp add: w5_def set_carray_def)
  obtain x where x: "irfft_documented (carrays w5 0) = Inr x" "length x = 4"
    using irfft_documented_returns [of "carrays w5 0"] by (auto simp: c5 sp inv)
  have "x \<noteq> []" using x(2) by auto
  then obtain y where y: "detrend_documented (take 2 x) = Inr y" "length y = 2"
    using detrend_documented_returns [of "take 2 x"] x(2) by auto
  have n5: "n_farrays w5 = 2" by (simp add: w5_def set_carray_def w3_def w2_def w1_def)
  have d5: "dicts w5 = dicts sim_world"
    by (simp add: w5_def set_carray_def w3_def w2_def w1_def)
  have dd: "descriptor w (Some 0) = Some paz_example" if "dicts w = dicts sim_world" for w
    using that by (simp add: descriptor_def sim_world_def paz_example_def)
  have gs: "getitem_float paz_example ''sensitivity'' = Inr 671140000"
    by (simp add: getitem_float_def paz_example_def)
  have s7: "fst (stage_back documented_libraries sim_call 2 0 w5) = Inr 2"
    by (simp add: stage_back_def seq_def documented_libraries_def x new_farray_def n5 y
        set_farray_def dd d5 gs sim_call_def no_effect_def descriptor_def [of _ None])
  have t: "truthy sim_world (paz_remove sim_call)"
    by (simp add: truthy_def sim_call_def sim_world_def paz_example_def)
  have c: "check_descriptors sim_world [paz_remove sim_call, paz_simulate sim_call] = Inr ()"
    by (simp add: sim_call_def sim_world_def paz_example_def and_then_def)
  have n: "choose_nfft documented_libraries sim_call 2 = Inr 4"
    by (simp add: choose_nfft_def sim_call_def)
  have l: "length (farrays sim_world (data sim_call)) = 2" "samp_rate sim_call = 200"
    by (simp_all add: sim_call_def sim_world_def)
  show ?thesis
    using t s7
    by (simp add: seisSim_def c seq_def no_effect_def py_div_def l
        stage_taper_example [folded w1_def] n s2 [unfolded One_nat_def]
        s3 [unfolded One_nat_def] s4 [unfolded One_nat_def] s5 [unfolded One_nat_def] s6)
qed

text \<open>
  Claim C8, as stated: the caller's data array is unchanged, while the removal response
  structure that is passed in is mutated in place by the deconvolution step. In the
  example call, which removes the instrument held in dict 0 and returns, that dict is
  after the call what it was before (and so is the data array): the array that the
  water-level inversion overwrites is the one \<^verbatim>\<open>pazToFreqResp\<close> has just built.
\<close>

theorem seisSim_removal_dict_unchanged_counterexample:
  "paz_remove sim_call = Some 0
   \<and> fst (seisSim documented_libraries sim_call sim_world) = Inr 2
   \<and> dicts (snd (seisSim documented_libraries sim_call sim_world)) 0 = dicts sim_world 0
   \<and> dicts sim_world 0 = paz_example"
proof -
  have "kept sim_world (snd (seisSim documented_libraries sim_call sim_world))"
    using seisSim_kept [of documented_libraries sim_call sim_world
        "fst (seisSim documented_libraries sim_call sim_world)"
        "snd (seisSim documented_libraries sim_call sim_world)"]
    by simp
  then have "dicts (snd (seisSim documented_libraries sim_call sim_world)) 0
      = dicts sim_world 0"
    by (simp add: kept_def)
  then show ?thesis
    using seisSim_example_returns by (simp add: sim_call_def sim_world_def)
qed

text \<open>
  Claim C8, amended: a call to \<^verbatim>\<open>seisSim\<close>, whether it returns or raises, changes
  no object of the caller: every dict (so each response dictionary passed in) and every
  array that existed before the call (so the input data array) is unchanged; and the
  array it returns is a new one. The arrays updated in place, the response array of
  the deconvolution step among them, are arrays that the call has made itself.
\<close>

theorem seisSim_keeps_caller_objects:
  assumes "seisSim lib a w = (r, w')"
  shows "kept w w' \<and> (\<forall>d. r = Inr d \<longrightarrow> n_farrays w \<le> d)"
  using assms by (rule seisSim_kept)

theorem seisSim_keeps_caller_objects_witness:
  "seisSim documented_libraries sim_call sim_world
     = (Inr 2, snd (seisSim documented_libraries sim_call sim_world))
   \<and> dicts (snd (seisSim documented_libraries sim_call sim_world)) = dicts sim_world
   \<and> farrays (snd (seisSim documented_libraries sim_call sim_world)) 0 = [1, 2]
   \<and> n_farrays sim_world \<le> 2"
proof -
  have e: "seisSim documented_libraries sim_call sim_world
     = (Inr 2, snd (seisSim documented_libraries sim_call sim_world))"
    using seisSim_example_returns by (simp add: prod_eq_iff)
  have "kept sim_world (snd (seisSim documented_libraries sim_call sim_world))
     \<and> (\<forall>d. (Inr 2 :: error + nat) = Inr d \<longrightarrow> n_farrays sim_world \<le> d)"
    using seisSim_keeps_caller_objects [OF e] .
  then have "dicts (snd (seisSim documented_libraries sim_call sim_world)) = dicts sim_world"
    "farrays (snd (seisSim documented_libraries sim_call sim_world)) 0 = [1, 2]"
    "n_farrays sim_world \<le> 2"
    by (simp_all add: kept_def sim_world_def)
  with e show ?thesis by simp
qed

end
